theory Spec2Isabelle
  imports Complex_Main "HOL-Library.Product_Lexorder" "HOL-Library.Multiset"
begin

section \<open>Sanctions screening: matching, scoring, filtering and decisions\<close>

text \<open>
  A shallow embedding of the screening core of the repository:
  \<^item> \<^verbatim>\<open>app/config/thresholds.py\<close>
  \<^item> \<^verbatim>\<open>app/matching/similarity.py\<close>, \<^verbatim>\<open>matchers.py\<close>, \<^verbatim>\<open>scorer.py\<close>, \<^verbatim>\<open>engine.py\<close>
  \<^item> \<^verbatim>\<open>app/flagging/filters.py\<close>, \<^verbatim>\<open>rules.py\<close>, \<^verbatim>\<open>decisions.py\<close>, \<^verbatim>\<open>engine.py\<close>

  Conventions.
  \<^item> Python dictionaries with a fixed set of keys are records; a key that some code path
    leaves out is a field of option type (\<open>None\<close> = key absent).
  \<^item> Python floats are idealised as \<open>real\<close>; rounding is not modelled.
  \<^item> Python strings are \<open>string\<close>; \<open>lower\<close>, \<open>strip\<close> and \<open>split\<close> are modelled on ASCII.
  \<^item> A raised exception is \<open>Inl\<close> of a result of type \<open>py_error + 'a\<close>.
  \<^item> What lies outside the repository is a parameter: the four \<^verbatim>\<open>rapidfuzz.fuzz\<close> functions
    (record \<open>fuzz\<close>), the clock, the uuid generator and float formatting (record \<open>env\<close>).
    The name preprocessing pipeline (\<^verbatim>\<open>NameProcessor.process_single\<close>, built on
    \<^verbatim>\<open>unidecode\<close> and regular expressions) is passed to \<open>screen_name\<close> as a function.
\<close>

subsection \<open>Python helpers\<close>

datatype py_error = ValueError

text \<open>\<^verbatim>\<open>d.get(k, default)\<close>\<close>

definition dict_get :: "('k \<rightharpoonup> 'v) \<Rightarrow> 'k \<Rightarrow> 'v \<Rightarrow> 'v" where
  "dict_get d k dflt = (case d k of None \<Rightarrow> dflt | Some v \<Rightarrow> v)"

text \<open>\<^verbatim>\<open>str.lower\<close>, on ASCII letters.\<close>

definition lower_char :: "char \<Rightarrow> char" where
  "lower_char c =
     (case map_of (zip ''ABCDEFGHIJKLMNOPQRSTUVWXYZ'' ''abcdefghijklmnopqrstuvwxyz'') c of
        None \<Rightarrow> c
      | Some l \<Rightarrow> l)"

definition lower :: "string \<Rightarrow> string" where
  "lower s = map lower_char s"

text \<open>\<^verbatim>\<open>str.upper\<close>, on ASCII letters.\<close>

definition upper_char :: "char \<Rightarrow> char" where
  "upper_char c =
     (case map_of (zip ''abcdefghijklmnopqrstuvwxyz'' ''ABCDEFGHIJKLMNOPQRSTUVWXYZ'') c of
        None \<Rightarrow> c
      | Some u \<Rightarrow> u)"

definition upper :: "string \<Rightarrow> string" where
  "upper s = map upper_char s"

text \<open>\<^verbatim>\<open>str.isspace\<close> for one ASCII character: TAB, LF, VT, FF, CR, FS, GS, RS, US, space.\<close>

definition isspace :: "char \<Rightarrow> bool" where
  "isspace c = (let n = (of_char c :: nat) in (9 \<le> n \<and> n \<le> 13) \<or> (28 \<le> n \<and> n \<le> 32))"

text \<open>\<^verbatim>\<open>str.strip()\<close>\<close>

definition strip :: "string \<Rightarrow> string" where
  "strip s = rev (dropWhile isspace (rev (dropWhile isspace s)))"

text \<open>\<^verbatim>\<open>str.split()\<close> without argument: the maximal runs of non-space characters.\<close>

fun split_acc :: "string \<Rightarrow> string \<Rightarrow> string list" where
  "split_acc w [] = (if w = [] then [] else [rev w])"
| "split_acc w (c # cs) =
     (if isspace c then (if w = [] then split_acc [] cs else rev w # split_acc [] cs)
      else split_acc (c # w) cs)"

definition split :: "string \<Rightarrow> string list" where
  "split s = split_acc [] s"

text \<open>\<^verbatim>\<open>sub in s\<close> on strings: \<open>sub\<close> occurs as a contiguous substring of \<open>s\<close>.\<close>

fun startswith :: "string \<Rightarrow> string \<Rightarrow> bool" where
  "startswith s [] = True"
| "startswith [] (p # ps) = False"
| "startswith (c # cs) (p # ps) = (c = p \<and> startswith cs ps)"

fun str_contains :: "string \<Rightarrow> string \<Rightarrow> bool" where
  "str_contains [] sub = (sub = [])"
| "str_contains (c # cs) sub = (startswith (c # cs) sub \<or> str_contains cs sub)"

text \<open>\<^verbatim>\<open>max(xs, key=f)\<close>: the first element with the largest key; raises on an empty list.\<close>

fun max_by_acc :: "('a \<Rightarrow> real) \<Rightarrow> 'a \<Rightarrow> 'a list \<Rightarrow> 'a" where
  "max_by_acc f best [] = best"
| "max_by_acc f best (x # xs) = (if f x > f best then max_by_acc f x xs else max_by_acc f best xs)"

definition max_by :: "('a \<Rightarrow> real) \<Rightarrow> 'a list \<Rightarrow> py_error + 'a" where
  "max_by f xs = (case xs of [] \<Rightarrow> Inl ValueError | x # rest \<Rightarrow> Inr (max_by_acc f x rest))"

text \<open>
  \<^verbatim>\<open>sorted(xs, key=f, reverse=True)\<close>: CPython reverses the list, sorts it stably in
  ascending order and reverses the result, which keeps equal keys in input order.
\<close>

definition sorted_reverse :: "('a \<Rightarrow> 'k::linorder) \<Rightarrow> 'a list \<Rightarrow> 'a list" where
  "sorted_reverse f xs = rev (sort_key f (rev xs))"

subsection \<open>\<^verbatim>\<open>config/thresholds.py\<close>\<close>

definition EXACT_MATCH_THRESHOLD :: real where "EXACT_MATCH_THRESHOLD = 100"
definition HIGH_RISK_THRESHOLD :: real where "HIGH_RISK_THRESHOLD = 85"
definition MEDIUM_RISK_THRESHOLD :: real where "MEDIUM_RISK_THRESHOLD = 70"
definition LOW_RISK_THRESHOLD :: real where "LOW_RISK_THRESHOLD = 60"

definition MIN_NAME_LENGTH :: nat where "MIN_NAME_LENGTH = 3"
definition REQUIRE_MANUAL_REVIEW_ABOVE :: real where
  "REQUIRE_MANUAL_REVIEW_ABOVE = HIGH_RISK_THRESHOLD"
definition AUTO_CLEAR_BELOW :: real where "AUTO_CLEAR_BELOW = LOW_RISK_THRESHOLD"

definition LIST_PRIORITIES :: "string \<rightharpoonup> int" where
  "LIST_PRIORITIES = [''OFAC'' \<mapsto> 100, ''UN'' \<mapsto> 90, ''HMT'' \<mapsto> 80, ''EU'' \<mapsto> 70]"

subsection \<open>Data model\<close>

text \<open>The \<^verbatim>\<open>details\<close> dictionary of a matcher result; its keys depend on the matcher.\<close>

record matched_token =
  mt_query :: string
  mt_target :: "string option"
  mt_score :: real

datatype details =
  ExactDetails bool
| FuzzyDetails real real real real
| TokenDetails "matched_token list" "real option"

text \<open>\<^verbatim>\<open>match.get('details', {}).get('match_ratio', 0)\<close>\<close>

fun details_match_ratio :: "details \<Rightarrow> real" where
  "details_match_ratio (TokenDetails _ (Some r)) = r"
| "details_match_ratio _ = 0"

text \<open>What a matcher returns.\<close>

record matcher_result =
  match_type :: string
  score :: real
  is_match :: bool
  match_level :: "string option"
  details :: details

text \<open>
  A match record: the matcher result extended by \<^verbatim>\<open>_match_against_entry\<close>
  (\<^verbatim>\<open>{**result, 'target_name': ..., ...}\<close>).
\<close>

record match_record = matcher_result +
  target_name :: string
  source :: string
  list_type :: string
  confidence :: string

text \<open>A scored match: \<^verbatim>\<open>screen_name\<close> adds \<^verbatim>\<open>risk_score\<close> and \<^verbatim>\<open>risk_level\<close>.\<close>

record scored_match = match_record +
  risk_score :: real
  risk_level :: string

text \<open>A row of the sanctions data frame, read with \<^verbatim>\<open>row.get(key, default)\<close>.\<close>

record sanction_row =
  row_name :: "string option"
  row_normalized :: "string option"
  row_tokens :: "string list option"
  row_source :: "string option"
  row_list_type :: "string option"

text \<open>The dictionary returned by \<^verbatim>\<open>NameProcessor.process_single\<close>.\<close>

record query_profile =
  original :: string
  cleaned :: string
  normalized :: string
  tokens :: "string list"
  variants :: "string list"

record summary =
  total_matches :: nat
  highest_risk :: string
  highest_score :: "real option"
  requires_review :: bool
  can_auto_clear :: bool
  risk_breakdown :: "(nat \<times> nat \<times> nat) option"

record screening_result =
  query :: string
  processed_query :: "query_profile option"
  matches :: "scored_match list"
  summary :: summary

subsection \<open>\<^verbatim>\<open>matching/scorer.py\<close>: \<^verbatim>\<open>MatchScorer\<close>\<close>

definition calculate_risk_score :: "'a match_record_scheme \<Rightarrow> string \<Rightarrow> real" where
  "calculate_risk_score match_result list_source =
     (let base_score = score match_result;
          list_priority = dict_get LIST_PRIORITIES list_source 50;
          priority_multiplier = real_of_int list_priority / 100;
          priority_multiplier =
            (if match_type match_result = ''exact'' then priority_multiplier * (12 / 10)
             else priority_multiplier)
      in min (base_score * priority_multiplier) 100)"

definition determine_risk_level :: "real \<Rightarrow> string" where
  "determine_risk_level s =
     (if s \<ge> HIGH_RISK_THRESHOLD then ''HIGH''
      else if s \<ge> MEDIUM_RISK_THRESHOLD then ''MEDIUM''
      else if s \<ge> LOW_RISK_THRESHOLD then ''LOW''
      else ''NONE'')"

definition scorer_requires_review :: "real \<Rightarrow> bool" where
  "scorer_requires_review s = (s \<ge> REQUIRE_MANUAL_REVIEW_ABOVE)"

definition should_auto_clear :: "real \<Rightarrow> bool" where
  "should_auto_clear s = (s < AUTO_CLEAR_BELOW)"

text \<open>The sort key of \<^verbatim>\<open>rank_matches\<close>; tuples compare lexicographically.\<close>

definition sort_key_of :: "scored_match \<Rightarrow> real \<times> int \<times> real" where
  "sort_key_of m = (risk_score m, dict_get LIST_PRIORITIES (source m) 0, score m)"

definition rank_matches :: "scored_match list \<Rightarrow> scored_match list" where
  "rank_matches ms = sorted_reverse sort_key_of ms"

definition count_level :: "string \<Rightarrow> scored_match list \<Rightarrow> nat" where
  "count_level lvl ms = length [m \<leftarrow> ms. determine_risk_level (risk_score m) = lvl]"

definition create_match_summary :: "scored_match list \<Rightarrow> summary" where
  "create_match_summary ms =
     (case ms of
        [] \<Rightarrow> \<lparr>total_matches = 0, highest_risk = ''NONE'', highest_score = None,
               requires_review = False, can_auto_clear = True, risk_breakdown = None\<rparr>
      | m # rest \<Rightarrow>
          (let hs = fold max (map risk_score rest) (risk_score m)
           in \<lparr>total_matches = length ms,
               highest_risk = determine_risk_level hs,
               highest_score = Some hs,
               requires_review = scorer_requires_review hs,
               can_auto_clear = should_auto_clear hs,
               risk_breakdown =
                 Some (count_level ''HIGH'' ms, count_level ''MEDIUM'' ms, count_level ''LOW'' ms)\<rparr>))"

subsection \<open>\<^verbatim>\<open>matching/similarity.py\<close>: \<^verbatim>\<open>SimilarityCalculator\<close>\<close>

text \<open>The four functions of \<^verbatim>\<open>rapidfuzz.fuzz\<close> that the calculator calls.\<close>

record fuzz =
  fuzz_ratio :: "string \<Rightarrow> string \<Rightarrow> real"
  fuzz_partial_ratio :: "string \<Rightarrow> string \<Rightarrow> real"
  fuzz_token_sort_ratio :: "string \<Rightarrow> string \<Rightarrow> real"
  fuzz_token_set_ratio :: "string \<Rightarrow> string \<Rightarrow> real"

definition levenshtein_ratio :: "fuzz \<Rightarrow> string \<Rightarrow> string \<Rightarrow> real" where
  "levenshtein_ratio F str1 str2 = (if str1 = [] \<or> str2 = [] then 0 else fuzz_ratio F str1 str2)"

definition partial_ratio :: "fuzz \<Rightarrow> string \<Rightarrow> string \<Rightarrow> real" where
  "partial_ratio F str1 str2 =
     (if str1 = [] \<or> str2 = [] then 0 else fuzz_partial_ratio F str1 str2)"

definition token_sort_ratio :: "fuzz \<Rightarrow> string \<Rightarrow> string \<Rightarrow> real" where
  "token_sort_ratio F str1 str2 =
     (if str1 = [] \<or> str2 = [] then 0 else fuzz_token_sort_ratio F str1 str2)"

definition token_set_ratio :: "fuzz \<Rightarrow> string \<Rightarrow> string \<Rightarrow> real" where
  "token_set_ratio F str1 str2 =
     (if str1 = [] \<or> str2 = [] then 0 else fuzz_token_set_ratio F str1 str2)"

definition weighted_average :: "fuzz \<Rightarrow> string \<Rightarrow> string \<Rightarrow> real \<times> details" where
  "weighted_average F str1 str2 =
     (let l = levenshtein_ratio F str1 str2;
          p = partial_ratio F str1 str2;
          ts = token_sort_ratio F str1 str2;
          tset = token_set_ratio F str1 str2;
          weighted_score = 0 + l * (3 / 10) + p * (2 / 10) + ts * (3 / 10) + tset * (2 / 10)
      in (weighted_score, FuzzyDetails l p ts tset))"

subsection \<open>\<^verbatim>\<open>matching/matchers.py\<close>\<close>

definition ExactMatcher_match :: "string \<Rightarrow> string \<Rightarrow> matcher_result" where
  "ExactMatcher_match q target =
     (let im = (strip (lower q) = strip (lower target))
      in \<lparr>match_type = ''exact'', score = (if im then 100 else 0), is_match = im,
          match_level = None, details = ExactDetails im\<rparr>)"

definition FuzzyMatcher_match :: "fuzz \<Rightarrow> string \<Rightarrow> string \<Rightarrow> matcher_result" where
  "FuzzyMatcher_match F q target =
     (let (sc, dt) = weighted_average F q target;
          lvl = (if sc \<ge> HIGH_RISK_THRESHOLD then ''high''
                 else if sc \<ge> MEDIUM_RISK_THRESHOLD then ''medium''
                 else if sc \<ge> LOW_RISK_THRESHOLD then ''low''
                 else ''none'')
      in \<lparr>match_type = ''fuzzy'', score = sc, is_match = (sc \<ge> LOW_RISK_THRESHOLD),
          match_level = Some lvl, details = dt\<rparr>)"

text \<open>
  The inner loop of \<^verbatim>\<open>TokenMatcher.match\<close> over the target tokens; the state is
  \<^verbatim>\<open>(best_match_score, best_match_token)\<close>, started at \<^verbatim>\<open>(0.0, None)\<close>.
\<close>

fun best_match :: "fuzz \<Rightarrow> string \<Rightarrow> string list \<Rightarrow> real \<times> string option \<Rightarrow> real \<times> string option" where
  "best_match F q_token [] best = best"
| "best_match F q_token (t_token # ts) (best_match_score, best_match_token) =
     (let token_score = levenshtein_ratio F q_token t_token
      in if token_score > best_match_score
         then best_match F q_token ts (token_score, Some t_token)
         else best_match F q_token ts (best_match_score, best_match_token))"

text \<open>The outer loop over the query tokens; the state is \<^verbatim>\<open>(matched_tokens, total_score)\<close>.\<close>

fun token_loop :: "fuzz \<Rightarrow> string list \<Rightarrow> string list \<Rightarrow> matched_token list \<times> real \<Rightarrow> matched_token list \<times> real" where
  "token_loop F [] target_tokens st = st"
| "token_loop F (q_token # qs) target_tokens (matched_tokens, total_score) =
     (let (best_match_score, best_match_token) = best_match F q_token target_tokens (0, None)
      in if best_match_score \<ge> LOW_RISK_THRESHOLD
         then token_loop F qs target_tokens
                (matched_tokens @ [\<lparr>mt_query = q_token, mt_target = best_match_token,
                                    mt_score = best_match_score\<rparr>],
                 total_score + best_match_score)
         else token_loop F qs target_tokens (matched_tokens, total_score))"

definition TokenMatcher_match :: "fuzz \<Rightarrow> string list \<Rightarrow> string list \<Rightarrow> matcher_result" where
  "TokenMatcher_match F query_tokens target_tokens =
     (if query_tokens = [] \<or> target_tokens = []
      then \<lparr>match_type = ''token'', score = 0, is_match = False, match_level = None,
            details = TokenDetails [] None\<rparr>
      else
        (let (matched_tokens, total_score) = token_loop F query_tokens target_tokens ([], 0);
             avg_score = (if query_tokens \<noteq> [] then total_score / real (length query_tokens) else 0)
         in \<lparr>match_type = ''token'', score = avg_score,
             is_match = (avg_score \<ge> LOW_RISK_THRESHOLD), match_level = None,
             details = TokenDetails matched_tokens
                         (Some (real (length matched_tokens) / real (length query_tokens)))\<rparr>))"

subsection \<open>\<^verbatim>\<open>matching/engine.py\<close>: \<^verbatim>\<open>MatchingEngine\<close>\<close>

text \<open>\<^verbatim>\<open>{**result, 'target_name': ..., 'source': ..., 'list_type': ..., 'confidence': c}\<close>\<close>

definition emit :: "matcher_result \<Rightarrow> sanction_row \<Rightarrow> string \<Rightarrow> match_record" where
  "emit res row conf =
     matcher_result.extend res
       \<lparr>target_name = (case row_name row of None \<Rightarrow> [] | Some n \<Rightarrow> n),
        source = (case row_source row of None \<Rightarrow> [] | Some s \<Rightarrow> s),
        list_type = (case row_list_type row of None \<Rightarrow> [] | Some t \<Rightarrow> t),
        confidence = conf\<rparr>"

text \<open>\<^verbatim>\<open>sanction_row.get('normalized', sanction_row.get('name', ''))\<close>\<close>

definition sanction_name_of :: "sanction_row \<Rightarrow> string" where
  "sanction_name_of row =
     (case row_normalized row of
        Some n \<Rightarrow> n
      | None \<Rightarrow> (case row_name row of None \<Rightarrow> [] | Some n \<Rightarrow> n))"

definition match_against_entry :: "fuzz \<Rightarrow> query_profile \<Rightarrow> sanction_row \<Rightarrow> match_record list" where
  "match_against_entry F query_processed row =
     (let sanction_name = sanction_name_of row
      in if sanction_name = [] then []
         else
           (let exact_result = ExactMatcher_match (normalized query_processed) sanction_name
            in if is_match exact_result then [emit exact_result row ''HIGH'']
               else
                 (let fuzzy_result = FuzzyMatcher_match F (normalized query_processed) sanction_name;
                      matches1 =
                        (if is_match fuzzy_result
                         then [emit fuzzy_result row
                                 (upper (case match_level fuzzy_result of None \<Rightarrow> [] | Some l \<Rightarrow> l))]
                         else []);
                      sanction_tokens = (case row_tokens row of None \<Rightarrow> [] | Some ts \<Rightarrow> ts)
                  in if sanction_tokens \<noteq> []
                     then
                       (let token_result = TokenMatcher_match F (tokens query_processed) sanction_tokens
                        in if is_match token_result
                           then matches1 @ [emit token_result row ''MEDIUM'']
                           else matches1)
                     else matches1)))"

text \<open>The scoring loop of \<^verbatim>\<open>screen_name\<close>: each match is annotated in place.\<close>

definition score_match :: "match_record \<Rightarrow> scored_match" where
  "score_match m =
     (let rs = calculate_risk_score m (source m)
      in match_record.extend m \<lparr>risk_score = rs, risk_level = determine_risk_level rs\<rparr>)"

text \<open>
  \<open>process_single\<close> stands for \<^verbatim>\<open>self.processor.process_single\<close>. The loop over
  \<^verbatim>\<open>sanctions_df.iterrows()\<close> appends the records of each row in row order.
\<close>

definition screen_name :: "(string \<Rightarrow> query_profile) \<Rightarrow> fuzz \<Rightarrow> string \<Rightarrow> sanction_row list \<Rightarrow> screening_result" where
  "screen_name process_single F query_name sanctions_df =
     (if query_name = [] \<or> length (strip query_name) < MIN_NAME_LENGTH
      then \<lparr>query = query_name, processed_query = None, matches = [],
            summary = create_match_summary []\<rparr>
      else
        (let query_processed = process_single query_name;
             found = concat (map (match_against_entry F query_processed) sanctions_df);
             scored = map score_match found;
             significant_matches = [m \<leftarrow> scored. risk_score m \<ge> LOW_RISK_THRESHOLD];
             ranked_matches = rank_matches significant_matches
         in \<lparr>query = query_name, processed_query = Some query_processed,
             matches = ranked_matches,
             summary = create_match_summary ranked_matches\<rparr>))"

subsection \<open>\<^verbatim>\<open>flagging/filters.py\<close>: \<^verbatim>\<open>FalsePositiveFilter\<close>\<close>

text \<open>
  Each filter returns the matches it keeps, in order. The \<^verbatim>\<open>filtered\<close> and
  \<^verbatim>\<open>filter_reason\<close> marks are written on the dropped dictionaries only, which the
  result no longer references, so they are not modelled.
\<close>

definition common_words :: "string list" where
  "common_words = [''company'', ''corporation'', ''limited'', ''ltd'', ''inc'', ''llc'',
     ''bank'', ''group'', ''international'', ''trading'', ''services'',
     ''foundation'', ''association'', ''organization'', ''society'']"

definition filter_common_words :: "scored_match list \<Rightarrow> string \<Rightarrow> scored_match list" where
  "filter_common_words ms q =
     (let query_lower = lower q
      in [m \<leftarrow> ms.
            \<not> (list_ex (\<lambda>w. str_contains query_lower w) common_words \<and>
               list_ex (\<lambda>w. str_contains (lower (target_name m)) w) common_words \<and>
               score m < 75)])"

definition filter_short_names :: "scored_match list \<Rightarrow> string \<Rightarrow> scored_match list" where
  "filter_short_names ms q =
     (if length (strip q) \<le> 3 then []
      else [m \<leftarrow> ms. \<not> (length (strip (target_name m)) \<le> 3 \<and> score m < 90)])"

definition titles :: "string list" where
  "titles = [''mr'', ''mrs'', ''ms'', ''dr'', ''prof'', ''sir'', ''lady'', ''lord'']"

text \<open>
  The sets of words are duplicate-free lists; \<open>length\<close> of such a list is the
  \<^verbatim>\<open>len\<close> of the Python set. The division is only evaluated when \<^verbatim>\<open>title_words\<close>
  is not empty, and then \<^verbatim>\<open>common_words\<close> is not empty either.
\<close>

definition filter_title_only_matches :: "scored_match list \<Rightarrow> string \<Rightarrow> scored_match list" where
  "filter_title_only_matches ms q =
     (let query_words = remdups (split (lower q))
      in [m \<leftarrow> ms.
            (let target_words = remdups (split (lower (target_name m)));
                 common = [w \<leftarrow> query_words. w \<in> set target_words];
                 title_words = [w \<leftarrow> common. w \<in> set titles]
             in \<not> (length title_words > 0 \<and>
                   real (length title_words) / real (length common) > 1 / 2 \<and>
                   score m < 80))])"

definition filter_weak_partial_matches :: "scored_match list \<Rightarrow> string \<Rightarrow> scored_match list" where
  "filter_weak_partial_matches ms q =
     [m \<leftarrow> ms. \<not> (match_type m = ''token'' \<and> score m < 70 \<and>
                    details_match_ratio (details m) < 6 / 10)]"

definition geographic_terms :: "string list" where
  "geographic_terms = [''north'', ''south'', ''east'', ''west'', ''central'', ''new'', ''old'',
     ''city'', ''town'', ''village'', ''county'', ''state'', ''province'',
     ''republic'', ''kingdom'', ''emirates'', ''federation'']"

definition filter_geographic_false_positives :: "scored_match list \<Rightarrow> string \<Rightarrow> scored_match list" where
  "filter_geographic_false_positives ms q =
     (let query_lower = lower q
      in [m \<leftarrow> ms.
            (let query_geo_words = length [t \<leftarrow> geographic_terms. str_contains query_lower t];
                 target_geo_words =
                   length [t \<leftarrow> geographic_terms. str_contains (lower (target_name m)) t]
             in \<not> (query_geo_words > 0 \<and> target_geo_words > 0 \<and> score m < 75))])"

text \<open>The five filters in the insertion order of \<^verbatim>\<open>self.filters\<close>.\<close>

definition apply_filters :: "scored_match list \<Rightarrow> string \<Rightarrow> scored_match list" where
  "apply_filters ms q =
     (let f1 = filter_common_words ms q;
          f2 = filter_short_names f1 q;
          f3 = filter_title_only_matches f2 q;
          f4 = filter_weak_partial_matches f3 q;
          f5 = filter_geographic_false_positives f4 q
      in f5)"

subsection \<open>\<^verbatim>\<open>flagging/decisions.py\<close>: decisions and \<^verbatim>\<open>DecisionMaker\<close>\<close>

record workflow =
  queue :: string
  notification :: bool
  escalation_path :: "string option"

text \<open>
  A decision dictionary. Every dictionary built in the repository has the keys
  \<^verbatim>\<open>action\<close>, \<^verbatim>\<open>reason\<close>, \<^verbatim>\<open>confidence\<close> and \<^verbatim>\<open>priority\<close>; the other keys are
  optional. \<^verbatim>\<open>match_details\<close> may be present with the value \<^verbatim>\<open>None\<close> (\<open>Some None\<close>).
\<close>

record decision =
  action :: string
  reason :: string
  dec_confidence :: string
  priority :: string
  timestamp :: "string option"
  assigned_to :: "string option"
  match_details :: "scored_match option option"
  filter_applied :: "string option"
  requires_approval :: "bool option"
  sla_hours :: "int option"
  workflow :: "workflow option"

text \<open>
  The environment of the flagging engine: \<^verbatim>\<open>datetime.now().isoformat()\<close>, the screening
  id built from the clock and \<^verbatim>\<open>uuid.uuid4()\<close>, and the float format \<^verbatim>\<open>{x:.1f}\<close>.
\<close>

record env =
  now_isoformat :: string
  new_screening_id :: string
  format_1f :: "real \<Rightarrow> string"

definition valid_actions :: "string list" where
  "valid_actions = [''AUTO_CLEAR'', ''MANUAL_REVIEW'', ''ESCALATE'', ''BLOCK'']"

definition valid_priorities :: "string list" where
  "valid_priorities = [''LOW'', ''MEDIUM'', ''HIGH'', ''CRITICAL'']"

definition approval_required :: "string \<rightharpoonup> bool" where
  "approval_required =
     [''AUTO_CLEAR'' \<mapsto> False, ''MANUAL_REVIEW'' \<mapsto> False, ''ESCALATE'' \<mapsto> True, ''BLOCK'' \<mapsto> True]"

definition decision_requires_approval :: "string \<Rightarrow> bool" where
  "decision_requires_approval act = dict_get approval_required act True"

definition sla_matrix :: "string \<rightharpoonup> (string \<rightharpoonup> int)" where
  "sla_matrix =
     [''AUTO_CLEAR'' \<mapsto> [''LOW'' \<mapsto> 0, ''MEDIUM'' \<mapsto> 0, ''HIGH'' \<mapsto> 0, ''CRITICAL'' \<mapsto> 0],
      ''MANUAL_REVIEW'' \<mapsto> [''LOW'' \<mapsto> 72, ''MEDIUM'' \<mapsto> 24, ''HIGH'' \<mapsto> 8, ''CRITICAL'' \<mapsto> 2],
      ''ESCALATE'' \<mapsto> [''LOW'' \<mapsto> 48, ''MEDIUM'' \<mapsto> 12, ''HIGH'' \<mapsto> 4, ''CRITICAL'' \<mapsto> 1],
      ''BLOCK'' \<mapsto> [''LOW'' \<mapsto> 24, ''MEDIUM'' \<mapsto> 8, ''HIGH'' \<mapsto> 2, ''CRITICAL'' \<mapsto> 0]]"

definition get_sla_hours :: "string \<Rightarrow> string \<Rightarrow> int" where
  "get_sla_hours act prio = dict_get (dict_get sla_matrix act Map.empty) prio 24"

text \<open>
  \<^verbatim>\<open>create_decision(action, reason, **kwargs)\<close>; the keyword arguments are passed as
  options (\<open>None\<close> = keyword not given).
\<close>

definition create_decision :: "env \<Rightarrow> string \<Rightarrow> string \<Rightarrow> string option \<Rightarrow> string option \<Rightarrow> string option \<Rightarrow> scored_match option option \<Rightarrow> string option \<Rightarrow> decision" where
  "create_decision E act rsn kw_confidence kw_priority kw_assigned_to kw_match_details kw_filter_applied =
     \<lparr>action = act,
      reason = rsn,
      dec_confidence = (case kw_confidence of None \<Rightarrow> ''MEDIUM'' | Some c \<Rightarrow> c),
      priority = (case kw_priority of None \<Rightarrow> ''MEDIUM'' | Some p \<Rightarrow> p),
      timestamp = Some (now_isoformat E),
      assigned_to = kw_assigned_to,
      match_details = kw_match_details,
      filter_applied = kw_filter_applied,
      requires_approval = Some (decision_requires_approval act),
      sla_hours = Some (get_sla_hours act (case kw_priority of None \<Rightarrow> ''MEDIUM'' | Some p \<Rightarrow> p)),
      workflow = None\<rparr>"

text \<open>
  \<^verbatim>\<open>validate_decision\<close>: of the five required keys, four are fields every decision
  record has; only \<^verbatim>\<open>timestamp\<close> can be missing.
\<close>

definition validate_decision :: "decision \<Rightarrow> bool" where
  "validate_decision d =
     (if timestamp d = None then False
      else if action d \<notin> set valid_actions then False
      else if priority d \<notin> set valid_priorities then False
      else True)"

definition get_workflow_routing :: "decision \<Rightarrow> workflow" where
  "get_workflow_routing d =
     (let act = action d; prio = priority d;
          manual = \<lparr>queue = ''analyst_review'', notification = True,
                    escalation_path =
                      (if prio \<in> set [''HIGH'', ''CRITICAL''] then Some ''supervisor'' else None)\<rparr>
      in if act = ''AUTO_CLEAR''
         then \<lparr>queue = ''auto_processed'', notification = False, escalation_path = None\<rparr>
         else if act = ''MANUAL_REVIEW'' then manual
         else if act = ''ESCALATE''
         then \<lparr>queue = ''senior_analyst'', notification = True,
               escalation_path = Some ''compliance_manager''\<rparr>
         else if act = ''BLOCK''
         then \<lparr>queue = ''immediate_action'', notification = True,
               escalation_path = Some ''compliance_manager''\<rparr>
         else manual)"

subsection \<open>\<^verbatim>\<open>flagging/rules.py\<close>: \<^verbatim>\<open>BusinessRules\<close>\<close>

text \<open>A rule returns \<open>None\<close> when it does not fire. \<^verbatim>\<open>summary.get('highest_score', 0)\<close>:\<close>

definition summary_highest_score :: "summary \<Rightarrow> real" where
  "summary_highest_score sm = (case highest_score sm of None \<Rightarrow> 0 | Some h \<Rightarrow> h)"

fun exact_ofac_block :: "scored_match list \<Rightarrow> summary \<Rightarrow> 'a screening_result_scheme \<Rightarrow> decision option" where
  "exact_ofac_block [] sm res = None"
| "exact_ofac_block (m # ms) sm res =
     (if source m = ''OFAC'' \<and> match_type m = ''exact'' \<and> (score m = 100 \<or> risk_score m = 100)
      then Some \<lparr>action = ''BLOCK'',
                 reason = ''Exact OFAC match: '' @ target_name m,
                 dec_confidence = ''HIGH'',
                 priority = ''CRITICAL'',
                 timestamp = Some ''auto-generated'',
                 assigned_to = None,
                 match_details = Some (Some m),
                 filter_applied = None,
                 requires_approval = None, sla_hours = None, workflow = None\<rparr>
      else exact_ofac_block ms sm res)"

text \<open>\<^verbatim>\<open>max(matches, key=...)\<close> raises \<^verbatim>\<open>ValueError\<close> on an empty list.\<close>

definition high_risk_escalate :: "env \<Rightarrow> scored_match list \<Rightarrow> summary \<Rightarrow> 'a screening_result_scheme \<Rightarrow> py_error + decision option" where
  "high_risk_escalate E ms sm res =
     (let hs = summary_highest_score sm
      in if hs \<ge> 85
         then (case max_by risk_score ms of
                 Inl e \<Rightarrow> Inl e
               | Inr high_risk_match \<Rightarrow>
                   Inr (Some \<lparr>action = ''ESCALATE'',
                              reason = ''High-risk match (score: '' @ format_1f E hs @ '')'',
                              dec_confidence = ''HIGH'',
                              priority = ''HIGH'',
                              timestamp = Some ''auto-generated'',
                              assigned_to = Some ''senior_analyst'',
                              match_details = Some (Some high_risk_match),
                              filter_applied = None,
                              requires_approval = None, sla_hours = None, workflow = None\<rparr>))
         else Inr None)"

definition medium_risk_review :: "scored_match list \<Rightarrow> summary \<Rightarrow> 'a screening_result_scheme \<Rightarrow> decision option" where
  "medium_risk_review ms sm res =
     (let hs = summary_highest_score sm
      in if requires_review sm \<and> hs < 85
         then (let best_match = (case ms of [] \<Rightarrow> None | m # _ \<Rightarrow> Some m)
               in Some \<lparr>action = ''MANUAL_REVIEW'',
                        reason = ''Medium-risk match requires review'',
                        dec_confidence = ''MEDIUM'',
                        priority = ''MEDIUM'',
                        timestamp = None,
                        assigned_to = Some ''analyst'',
                        match_details = Some best_match,
                        filter_applied = None,
                        requires_approval = None, sla_hours = None, workflow = None\<rparr>)
         else None)"

definition low_risk_clear :: "scored_match list \<Rightarrow> summary \<Rightarrow> 'a screening_result_scheme \<Rightarrow> decision option" where
  "low_risk_clear ms sm res =
     (if can_auto_clear sm
      then Some \<lparr>action = ''AUTO_CLEAR'',
                 reason = ''Low risk score, auto-cleared'',
                 dec_confidence = ''MEDIUM'',
                 priority = ''LOW'',
                 timestamp = Some ''auto-generated'',
                 assigned_to = None, match_details = None, filter_applied = None,
                 requires_approval = None, sla_hours = None, workflow = None\<rparr>
      else None)"

definition common_names :: "string list" where
  "common_names = [''john smith'', ''mary johnson'', ''david brown'', ''michael davis'',
     ''james wilson'', ''robert miller'', ''william moore'', ''richard taylor'']"

definition common_name_filter :: "scored_match list \<Rightarrow> summary \<Rightarrow> 'a screening_result_scheme \<Rightarrow> decision option" where
  "common_name_filter ms sm res =
     (let q = strip (lower (query res))
      in if q \<in> set common_names \<and> summary_highest_score sm < 80
         then Some \<lparr>action = ''AUTO_CLEAR'',
                    reason = ''Common name with low confidence match'',
                    dec_confidence = ''MEDIUM'',
                    priority = ''LOW'',
                    timestamp = None,
                    assigned_to = None, match_details = None,
                    filter_applied = Some ''common_name'',
                    requires_approval = None, sla_hours = None, workflow = None\<rparr>
         else None)"

definition default_decision :: decision where
  "default_decision =
     \<lparr>action = ''AUTO_CLEAR'',
      reason = ''No significant matches found'',
      dec_confidence = ''HIGH'',
      priority = ''LOW'',
      timestamp = Some ''auto-generated'',
      assigned_to = None, match_details = None, filter_applied = None,
      requires_approval = None, sla_hours = None, workflow = None\<rparr>"

text \<open>
  \<^verbatim>\<open>apply_rules\<close>: the rules in the insertion order of \<^verbatim>\<open>self.rules\<close>; the first
  decision wins. The result is the decision and the name of the applied rule.
\<close>

definition apply_rules :: "env \<Rightarrow> 'a screening_result_scheme \<Rightarrow> py_error + (decision \<times> string)" where
  "apply_rules E res =
     (let ms = matches res; sm = summary res
      in case exact_ofac_block ms sm res of
           Some d \<Rightarrow> Inr (d, ''exact_ofac_block'')
         | None \<Rightarrow>
        (case high_risk_escalate E ms sm res of
           Inl e \<Rightarrow> Inl e
         | Inr (Some d) \<Rightarrow> Inr (d, ''high_risk_escalate'')
         | Inr None \<Rightarrow>
        (case medium_risk_review ms sm res of
           Some d \<Rightarrow> Inr (d, ''medium_risk_review'')
         | None \<Rightarrow>
        (case low_risk_clear ms sm res of
           Some d \<Rightarrow> Inr (d, ''low_risk_clear'')
         | None \<Rightarrow>
        (case common_name_filter ms sm res of
           Some d \<Rightarrow> Inr (d, ''common_name_filter'')
         | None \<Rightarrow> Inr (default_decision, ''default''))))))"

subsection \<open>\<^verbatim>\<open>flagging/engine.py\<close>: \<^verbatim>\<open>FlaggingEngine\<close>\<close>

record compliance =
  screening_id :: string
  total_matches_found :: nat
  matches_after_filtering :: nat
  highest_risk_score :: real
  decision_action :: string
  decision_confidence :: string
  comp_requires_approval :: bool
  comp_sla_hours :: int
  comp_applied_rule :: string
  processing_time_ms :: nat
  risk_assessment :: "(string \<times> string \<times> string) option"

record flagged_result = screening_result +
  filtered_count :: nat
  decision :: decision
  applied_rule :: string
  compliance :: compliance

definition generate_compliance_metadata :: "env \<Rightarrow> scored_match list \<Rightarrow> nat \<Rightarrow> decision \<Rightarrow> string \<Rightarrow> compliance" where
  "generate_compliance_metadata E ms fcount d rule =
     \<lparr>screening_id = new_screening_id E,
      total_matches_found = length ms + fcount,
      matches_after_filtering = length ms,
      highest_risk_score = (case ms of [] \<Rightarrow> 0 | m # rest \<Rightarrow> fold max (map risk_score rest) (risk_score m)),
      decision_action = action d,
      decision_confidence = dec_confidence d,
      comp_requires_approval = (case requires_approval d of None \<Rightarrow> False | Some b \<Rightarrow> b),
      comp_sla_hours = (case sla_hours d of None \<Rightarrow> 24 | Some h \<Rightarrow> h),
      comp_applied_rule = rule,
      processing_time_ms = 0,
      risk_assessment =
        (case ms of [] \<Rightarrow> None | m # _ \<Rightarrow> Some (source m, match_type m, confidence m))\<rparr>"

text \<open>Step 3 of \<^verbatim>\<open>process_screening_result\<close>: validate and enhance the decision.\<close>

definition validate_and_enhance :: "env \<Rightarrow> decision \<Rightarrow> decision" where
  "validate_and_enhance E d =
     (if validate_decision d
      then d\<lparr>workflow := Some (get_workflow_routing d)\<rparr>
      else create_decision E ''MANUAL_REVIEW''
             ''Decision validation failed, routing for manual review''
             None (Some ''MEDIUM'') None None None)"

definition process_screening_result :: "env \<Rightarrow> screening_result \<Rightarrow> py_error + flagged_result" where
  "process_screening_result E screening_result =
     (let original_matches = matches screening_result;
          filtered_matches = apply_filters original_matches (query screening_result);
          sr = screening_result\<lparr>matches := filtered_matches\<rparr>;
          fcount = length original_matches - length filtered_matches
      in case apply_rules E sr of
           Inl e \<Rightarrow> Inl e
         | Inr (d, rule) \<Rightarrow>
             (let final = validate_and_enhance E d
              in Inr (screening_result.extend sr
                        \<lparr>filtered_count = fcount,
                         decision = final,
                         applied_rule = rule,
                         compliance = generate_compliance_metadata E filtered_matches fcount final rule\<rparr>)))"

text \<open>The two engines in sequence, as every caller in the repository runs them.\<close>

definition screen :: "env \<Rightarrow> (string \<Rightarrow> query_profile) \<Rightarrow> fuzz \<Rightarrow> string \<Rightarrow> sanction_row list \<Rightarrow> py_error + flagged_result" where
  "screen E process_single F query_name sanctions_df =
     process_screening_result E (screen_name process_single F query_name sanctions_df)"

subsection \<open>Example inputs\<close>

text \<open>
  Instances of the external parameters, used where a statement is evaluated on a
  concrete input. \<open>const_fuzz c\<close> is a similarity library that answers \<open>c\<close> for every
  pair of strings. \<open>plain_process_single\<close> lower-cases and trims the query and splits it
  at white space; on the queries used below (ASCII letters and single spaces, no title,
  connector word or spelling variant) \<^verbatim>\<open>NameProcessor.process_single\<close> returns the same
  normalized form and tokens.
\<close>

definition const_fuzz :: "real \<Rightarrow> fuzz" where
  "const_fuzz c =
     \<lparr>fuzz_ratio = (\<lambda>a b. c), fuzz_partial_ratio = (\<lambda>a b. c),
      fuzz_token_sort_ratio = (\<lambda>a b. c), fuzz_token_set_ratio = (\<lambda>a b. c)\<rparr>"

definition plain_process_single :: "string \<Rightarrow> query_profile" where
  "plain_process_single q =
     \<lparr>original = q, cleaned = lower (strip q), normalized = lower (strip q),
      tokens = split (lower q), variants = []\<rparr>"

definition example_env :: env where
  "example_env =
     \<lparr>now_isoformat = ''2024-01-01T00:00:00'', new_screening_id = ''SLST_20240101_000000_0000abcd'',
      format_1f = (\<lambda>x. ''100.0'')\<rparr>"

text \<open>A sanctions row as \<^verbatim>\<open>process_dataframe\<close> leaves it, for a plain lower-case name.\<close>

definition example_row :: "string \<Rightarrow> string \<Rightarrow> string \<Rightarrow> sanction_row" where
  "example_row name src lt =
     \<lparr>row_name = Some name, row_normalized = Some (lower name),
      row_tokens = Some (split (lower name)), row_source = Some src, row_list_type = Some lt\<rparr>"

text \<open>
  The high-risk screening result of \<^verbatim>\<open>tests/test_end_to_end.py\<close>
  (\<^verbatim>\<open>test_decision_logic\<close>); keys the test leaves out carry the values
  \<^verbatim>\<open>screen_name\<close> gives them.
\<close>

definition high_risk_result :: screening_result where
  "high_risk_result =
     \<lparr>query = ''Osama bin Laden'',
      processed_query = None,
      matches =
        [\<lparr>match_type = ''exact'', score = 100, is_match = True, match_level = None,
          details = ExactDetails True,
          target_name = ''Osama bin Laden'', source = ''OFAC'', list_type = ''SDN'',
          confidence = ''HIGH'', risk_score = 100, risk_level = ''HIGH''\<rparr>],
      summary =
        \<lparr>total_matches = 1, highest_risk = ''HIGH'', highest_score = Some 100,
         requires_review = True, can_auto_clear = False, risk_breakdown = Some (1, 0, 0)\<rparr>\<rparr>"

text \<open>A query and a row whose names are empty after preprocessing (only titles).\<close>

definition titles_only_profile :: query_profile where
  "titles_only_profile =
     \<lparr>original = ''Mr Dr'', cleaned = [], normalized = [], tokens = [], variants = []\<rparr>"

definition titles_only_row :: sanction_row where
  "titles_only_row =
     \<lparr>row_name = Some ''Dr.'', row_normalized = Some [], row_tokens = Some [],
      row_source = Some ''OFAC'', row_list_type = Some ''SDN''\<rparr>"

text \<open>
  Query \<^verbatim>\<open>John Smith\<close> against an OFAC row of the same name and an EU row
  \<^verbatim>\<open>Jon Smith\<close>, and the records that the matchers and the scorer produce for them
  when the similarity library answers 65.
\<close>

definition john_smith_rows :: "sanction_row list" where
  "john_smith_rows =
     [example_row ''John Smith'' ''OFAC'' ''SDN'', example_row ''Jon Smith'' ''EU'' ''Individual'']"

definition john_smith_exact :: match_record where
  "john_smith_exact =
     \<lparr>match_type = ''exact'', score = 100, is_match = True, match_level = None,
      details = ExactDetails True,
      target_name = ''John Smith'', source = ''OFAC'', list_type = ''SDN'',
      confidence = ''HIGH''\<rparr>"

definition jon_smith_fuzzy :: match_record where
  "jon_smith_fuzzy =
     \<lparr>match_type = ''fuzzy'', score = 65, is_match = True, match_level = Some ''low'',
      details = FuzzyDetails 65 65 65 65,
      target_name = ''Jon Smith'', source = ''EU'', list_type = ''Individual'',
      confidence = ''LOW''\<rparr>"

definition jon_smith_token :: match_record where
  "jon_smith_token =
     \<lparr>match_type = ''token'', score = 65, is_match = True, match_level = None,
      details = TokenDetails [\<lparr>mt_query = ''john'', mt_target = Some ''jon'', mt_score = 65\<rparr>,
                              \<lparr>mt_query = ''smith'', mt_target = Some ''jon'', mt_score = 65\<rparr>]
                  (Some 1),
      target_name = ''Jon Smith'', source = ''EU'', list_type = ''Individual'',
      confidence = ''MEDIUM''\<rparr>"

definition scored :: "match_record \<Rightarrow> real \<Rightarrow> string \<Rightarrow> scored_match" where
  "scored m rs rl = match_record.extend m \<lparr>risk_score = rs, risk_level = rl\<rparr>"

text \<open>
  The exact-match record of a query \<^verbatim>\<open>Kim\<close> against a row named \<^verbatim>\<open>Kim\<close>, and of a
  query \<^verbatim>\<open>John Smith\<close> against a row of that name from a source outside the priority
  table.
\<close>

definition kim_exact :: "string \<Rightarrow> string \<Rightarrow> match_record" where
  "kim_exact src lt =
     \<lparr>match_type = ''exact'', score = 100, is_match = True, match_level = None,
      details = ExactDetails True,
      target_name = ''Kim'', source = src, list_type = lt, confidence = ''HIGH''\<rparr>"

definition john_smith_local :: match_record where
  "john_smith_local =
     \<lparr>match_type = ''exact'', score = 100, is_match = True, match_level = None,
      details = ExactDetails True,
      target_name = ''John Smith'', source = ''LOCAL'', list_type = ''Individual'',
      confidence = ''HIGH''\<rparr>"

definition kim_eu_rows :: "sanction_row list" where
  "kim_eu_rows = [example_row ''Kim'' ''EU'' ''Individual'']"

definition john_smith_local_rows :: "sanction_row list" where
  "john_smith_local_rows = [example_row ''John Smith'' ''LOCAL'' ''Individual'']"

subsection \<open>The ranking order in the words of the specification\<close>

text \<open>
  The specification ranks by \<open>(risk_score, list_priority(source), raw score)\<close> with the
  priority table of the risk score, where an unknown source counts 50. (\<open>sort_key_of\<close>
  above is the key the code uses; it reads the table with default 0.)
\<close>

definition list_priority_spec :: "string \<Rightarrow> int" where
  "list_priority_spec src =
     (if src = ''OFAC'' then 100 else if src = ''UN'' then 90 else if src = ''HMT'' then 80
      else if src = ''EU'' then 70 else 50)"

definition ranking_key_spec :: "scored_match \<Rightarrow> real \<times> int \<times> real" where
  "ranking_key_spec m = (risk_score m, list_priority_spec (source m), score m)"

subsection \<open>The token score in the words of the specification\<close>

text \<open>The best edit ratio of a query token against any target token.\<close>

definition best_edit_ratio :: "fuzz \<Rightarrow> string \<Rightarrow> string list \<Rightarrow> real" where
  "best_edit_ratio F q_token target_tokens =
     Max (set (map (levenshtein_ratio F q_token) target_tokens))"

section \<open>Properties\<close>

subsection \<open>Evaluation and auxiliary facts\<close>

lemmas string_defs = lower_def lower_char_def upper_def upper_char_def strip_def isspace_def split_def

lemmas threshold_defs = HIGH_RISK_THRESHOLD_def MEDIUM_RISK_THRESHOLD_def LOW_RISK_THRESHOLD_def
  MIN_NAME_LENGTH_def REQUIRE_MANUAL_REVIEW_ABOVE_def AUTO_CLEAR_BELOW_def

lemmas similarity_defs = levenshtein_ratio_def partial_ratio_def token_sort_ratio_def
  token_set_ratio_def weighted_average_def const_fuzz_def

lemmas matcher_defs = ExactMatcher_match_def FuzzyMatcher_match_def TokenMatcher_match_def
  match_against_entry_def sanction_name_of_def emit_def matcher_result.defs
  plain_process_single_def example_row_def

lemmas scorer_defs = score_match_def calculate_risk_score_def determine_risk_level_def
  dict_get_def LIST_PRIORITIES_def match_record.defs

lemmas summary_defs = create_match_summary_def determine_risk_level_def count_level_def
  scorer_requires_review_def should_auto_clear_def

lemma dict_get_priorities:
  "dict_get LIST_PRIORITIES src d =
     (if src = ''OFAC'' then 100 else if src = ''UN'' then 90 else if src = ''HMT'' then 80
      else if src = ''EU'' then 70 else d)"
  by (simp add: dict_get_def LIST_PRIORITIES_def)

lemma set_rank_matches: "set (rank_matches ms) = set ms"
  by (simp add: rank_matches_def sorted_reverse_def)

lemma rank_matches_single: "rank_matches [m] = [m]"
  by (simp add: rank_matches_def sorted_reverse_def)

lemma rank_matches_Nil: "rank_matches [] = []"
  by (simp add: rank_matches_def sorted_reverse_def)

lemma score_match_fields:
  "risk_score (score_match mr) = calculate_risk_score mr (source mr)"
  "risk_level (score_match mr) = determine_risk_level (calculate_risk_score mr (source mr))"
  "score (score_match mr) = score mr"
  "source (score_match mr) = source mr"
  "match_type (score_match mr) = match_type mr"
  by (simp_all add: score_match_def Let_def match_record.defs)

lemma screen_name_matches:
  "set (matches (screen_name P F q rows)) \<subseteq>
     {m \<in> range score_match. risk_score m \<ge> LOW_RISK_THRESHOLD}"
  by (auto simp: screen_name_def Let_def set_rank_matches)


lemma found_two_rows:
  "concat (map (match_against_entry (const_fuzz 65) (plain_process_single ''John Smith''))
       john_smith_rows)
   = [john_smith_exact, jon_smith_fuzzy, jon_smith_token]"
  by (simp add: john_smith_rows_def john_smith_exact_def jon_smith_fuzzy_def jon_smith_token_def
      matcher_defs string_defs similarity_defs threshold_defs Let_def)

lemma scored_two_rows:
  "map score_match [john_smith_exact, jon_smith_fuzzy, jon_smith_token]
   = [scored john_smith_exact 100 ''HIGH'', scored jon_smith_fuzzy (91 / 2) ''NONE'',
      scored jon_smith_token (91 / 2) ''NONE'']"
  by (simp add: john_smith_exact_def jon_smith_fuzzy_def jon_smith_token_def scored_def
      scorer_defs threshold_defs)

lemma scored_fields:
  "risk_score (scored m rs rl) = rs"
  "risk_level (scored m rs rl) = rl"
  "score (scored m rs rl) = score m"
  "source (scored m rs rl) = source m"
  "match_type (scored m rs rl) = match_type m"
  "target_name (scored m rs rl) = target_name m"
  "details (scored m rs rl) = details m"
  "confidence (scored m rs rl) = confidence m"
  by (simp_all add: scored_def match_record.defs)

lemma john_smith_long_enough: "''John Smith'' \<noteq> [] \<and> length (strip ''John Smith'') \<ge> 3"
  by (simp add: string_defs)

lemma screen_two_rows:
  "matches (screen_name plain_process_single (const_fuzz 65) ''John Smith'' john_smith_rows)
   = [scored john_smith_exact 100 ''HIGH'']"
  using john_smith_long_enough
  by (simp add: screen_name_def Let_def threshold_defs found_two_rows scored_two_rows
      scored_fields rank_matches_single del: concat.simps list.map)

subsection \<open>Risk score and risk level\<close>

text \<open>
  Claim C5. The risk score of a match record for a source is
  \<open>min(100, raw_score * (list_priority(source) / 100) * boost)\<close>, where the boost is 1.2
  for an exact match and 1 otherwise, and the priority is 100 for OFAC, 90 for UN, 80 for
  HMT, 70 for EU and 50 for every other source. With a raw score in \<open>[0, 100]\<close> the risk
  score lies in \<open>[0, 100]\<close>. The risk level is the risk score compared with 85, 70 and
  60, and every match returned by \<open>screen_name\<close> carries the risk score computed for
  its own source and the level of that score.
\<close>

theorem risk_score_formula:
  "calculate_risk_score m src =
     min 100 (score m
              * (real_of_int (if src = ''OFAC'' then 100 else if src = ''UN'' then 90
                              else if src = ''HMT'' then 80 else if src = ''EU'' then 70 else 50) / 100)
              * (if match_type m = ''exact'' then 12 / 10 else 1))
   \<and> (0 \<le> score m \<and> score m \<le> 100 \<longrightarrow>
        0 \<le> calculate_risk_score m src \<and> calculate_risk_score m src \<le> 100)
   \<and> determine_risk_level s =
       (if s \<ge> 85 then ''HIGH'' else if s \<ge> 70 then ''MEDIUM''
        else if s \<ge> 60 then ''LOW'' else ''NONE'')
   \<and> (\<forall>x \<in> set (matches (screen_name P F q rows)).
        risk_level x = determine_risk_level (risk_score x) \<and>
        risk_score x = calculate_risk_score x (source x))"
proof (intro conjI)
  show "calculate_risk_score m src =
     min 100 (score m
              * (real_of_int (if src = ''OFAC'' then 100 else if src = ''UN'' then 90
                              else if src = ''HMT'' then 80 else if src = ''EU'' then 70 else 50) / 100)
              * (if match_type m = ''exact'' then 12 / 10 else 1))"
    by (simp add: calculate_risk_score_def Let_def dict_get_priorities min.commute)
  show "0 \<le> score m \<and> score m \<le> 100 \<longrightarrow>
        0 \<le> calculate_risk_score m src \<and> calculate_risk_score m src \<le> 100"
    by (simp add: calculate_risk_score_def Let_def dict_get_priorities)
  show "determine_risk_level s =
       (if s \<ge> 85 then ''HIGH'' else if s \<ge> 70 then ''MEDIUM''
        else if s \<ge> 60 then ''LOW'' else ''NONE'')"
    by (simp add: determine_risk_level_def threshold_defs)
  show "\<forall>x \<in> set (matches (screen_name P F q rows)).
        risk_level x = determine_risk_level (risk_score x) \<and>
        risk_score x = calculate_risk_score x (source x)"
  proof
    fix x assume "x \<in> set (matches (screen_name P F q rows))"
    then obtain mr where x: "x = score_match mr"
      using screen_name_matches by blast
    show "risk_level x = determine_risk_level (risk_score x) \<and>
        risk_score x = calculate_risk_score x (source x)"
      unfolding x by (simp add: score_match_fields calculate_risk_score_def)
  qed
qed

theorem risk_score_formula_witness:
  "0 \<le> score john_smith_exact \<and> score john_smith_exact \<le> 100
   \<and> calculate_risk_score john_smith_exact ''OFAC'' = 100
   \<and> scored john_smith_exact 100 ''HIGH''
        \<in> set (matches (screen_name plain_process_single (const_fuzz 65) ''John Smith''
                          john_smith_rows))
   \<and> risk_level (scored john_smith_exact 100 ''HIGH'')
        = determine_risk_level (risk_score (scored john_smith_exact 100 ''HIGH''))
   \<and> determine_risk_level 100 = ''HIGH''"
proof -
  have range: "0 \<le> score john_smith_exact \<and> score john_smith_exact \<le> 100"
    by (simp add: john_smith_exact_def)
  have fields: "score john_smith_exact = 100" "match_type john_smith_exact = ''exact''"
    by (simp_all add: john_smith_exact_def)
  note inst = risk_score_formula [of john_smith_exact "''OFAC''" 100 plain_process_single
      "const_fuzz 65" "''John Smith''" john_smith_rows]
  from inst have "calculate_risk_score john_smith_exact ''OFAC'' = 100"
    by (simp add: fields)
  moreover from inst have "determine_risk_level 100 = ''HIGH''"
    by simp
  moreover from inst
  have "risk_level (scored john_smith_exact 100 ''HIGH'')
        = determine_risk_level (risk_score (scored john_smith_exact 100 ''HIGH''))"
    by (simp add: screen_two_rows)
  ultimately show ?thesis
    using range by (simp add: screen_two_rows)
qed

subsection \<open>Ranking\<close>

lemma priority_default_zero:
  "dict_get LIST_PRIORITIES src 0 =
     (if list_priority_spec src = 50 then 0 else list_priority_spec src)"
  by (simp add: dict_get_priorities list_priority_spec_def)

lemma list_priority_spec_values: "list_priority_spec src \<in> {100, 90, 80, 70, 50}"
  by (simp add: list_priority_spec_def)

lemma priority_less_iff:
  "dict_get LIST_PRIORITIES a 0 < dict_get LIST_PRIORITIES b 0
     \<longleftrightarrow> list_priority_spec a < list_priority_spec b"
  using list_priority_spec_values [of a] list_priority_spec_values [of b]
  by (auto simp: priority_default_zero)

lemma priority_le_iff:
  "dict_get LIST_PRIORITIES a 0 \<le> dict_get LIST_PRIORITIES b 0
     \<longleftrightarrow> list_priority_spec a \<le> list_priority_spec b"
  using list_priority_spec_values [of a] list_priority_spec_values [of b]
  by (auto simp: priority_default_zero)

lemma sort_key_le_iff:
  "sort_key_of a \<le> sort_key_of b \<longleftrightarrow> ranking_key_spec a \<le> ranking_key_spec b"
  by (simp add: sort_key_of_def ranking_key_spec_def less_eq_prod_def priority_less_iff
      priority_le_iff)

lemma sorted_reverse_sorted:
  "sorted_wrt (\<lambda>a b. f b \<le> f a) (sorted_reverse f xs)"
proof -
  have "sorted (map f (sort_key f (rev xs)))" by simp
  then have "sorted_wrt (\<lambda>a b. f a \<le> f b) (sort_key f (rev xs))"
    by (simp add: sorted_map)
  then show ?thesis
    by (simp add: sorted_reverse_def sorted_wrt_rev)
qed

lemma sorted_reverse_stable:
  "filter (\<lambda>y. f y = k) (sorted_reverse f xs) = filter (\<lambda>y. f y = k) xs"
proof -
  have "filter (\<lambda>y. f y = k) (sorted_reverse f xs)
          = rev (filter (\<lambda>y. f y = k) (sort_key f (rev xs)))"
    by (simp add: sorted_reverse_def rev_filter)
  also have "\<dots> = rev (filter (\<lambda>y. f y = k) (rev xs))"
    by (simp only: sort_key_stable)
  also have "\<dots> = filter (\<lambda>y. f y = k) xs"
    by (simp add: rev_filter)
  finally show ?thesis .
qed

lemma mset_sorted_reverse: "mset (sorted_reverse f xs) = mset xs"
  by (simp add: sorted_reverse_def)

lemma ranking_key_spec_eq_iff:
  "ranking_key_spec m = (r, p, s) \<longleftrightarrow>
     p \<in> {100, 90, 80, 70, 50} \<and> sort_key_of m = (r, (if p = 50 then 0 else p), s)"
  using list_priority_spec_values [of "source m"]
  by (auto simp: ranking_key_spec_def sort_key_of_def priority_default_zero)

text \<open>
  Claim C9. \<open>rank_matches\<close> returns its input rearranged in descending order of the
  tuple \<open>(risk_score, list_priority(source), raw score)\<close>, with the priority table
  OFAC 100, UN 90, HMT 80, EU 70 and 50 for an unknown source, and matches with equal
  tuples stay in their input order. (The key in the code reads the table with default 0
  instead of 50; both defaults lie below every entry of the table, so the order is the
  same.)
\<close>

theorem rank_matches_sorted_stable:
  "sorted_wrt (\<lambda>a b. ranking_key_spec a \<ge> ranking_key_spec b) (rank_matches ms)
   \<and> mset (rank_matches ms) = mset ms
   \<and> [m \<leftarrow> rank_matches ms. ranking_key_spec m = k] = [m \<leftarrow> ms. ranking_key_spec m = k]"
proof (intro conjI)
  have "sorted_wrt (\<lambda>a b. sort_key_of b \<le> sort_key_of a) (rank_matches ms)"
    unfolding rank_matches_def by (rule sorted_reverse_sorted)
  then show "sorted_wrt (\<lambda>a b. ranking_key_spec a \<ge> ranking_key_spec b) (rank_matches ms)"
    by (simp only: sort_key_le_iff)
  show "mset (rank_matches ms) = mset ms"
    by (simp add: rank_matches_def mset_sorted_reverse)
  obtain r p s where k: "k = (r, p, s)" by (cases k) auto
  show "[m \<leftarrow> rank_matches ms. ranking_key_spec m = k] = [m \<leftarrow> ms. ranking_key_spec m = k]"
  proof (cases "p \<in> {100, 90, 80, 70, 50}")
    case True
    then have "\<And>m. (ranking_key_spec m = k) = (sort_key_of m = (r, (if p = 50 then 0 else p), s))"
      unfolding k ranking_key_spec_eq_iff by simp
    then show ?thesis
      by (simp only: rank_matches_def sorted_reverse_stable)
  next
    case False
    then have "\<And>m. (ranking_key_spec m = k) = False"
      unfolding k ranking_key_spec_eq_iff by simp
    then show ?thesis by simp
  qed
qed

text \<open>Sources outside the table rank below EU and keep their input order.\<close>

lemma rank_unknown_source_example:
  "rank_matches [scored (kim_exact ''LOCAL'' ''x'') 60 ''LOW'',
                 scored (kim_exact ''EU'' ''x'') 60 ''LOW'',
                 scored (kim_exact ''OTHER'' ''x'') 60 ''LOW'']
   = [scored (kim_exact ''EU'' ''x'') 60 ''LOW'',
      scored (kim_exact ''LOCAL'' ''x'') 60 ''LOW'',
      scored (kim_exact ''OTHER'' ''x'') 60 ''LOW'']"
  by code_simp

subsection \<open>The low-risk cut of the matching engine\<close>

text \<open>
  Claim C10. Every match in the list returned by \<open>screen_name\<close> has a risk score of at
  least 60. The returned list is the ranking of the scored records with risk score at least
  60, and the summary is computed from that list: a record whose weighted risk score is
  below 60 is dropped before ranking and before the summary, whatever its raw score.
\<close>

theorem low_threshold_cut:
  "(\<forall>m \<in> set (matches (screen_name P F q rows)). risk_score m \<ge> 60)
   \<and> summary (screen_name P F q rows) = create_match_summary (matches (screen_name P F q rows))
   \<and> (q \<noteq> [] \<and> length (strip q) \<ge> 3 \<longrightarrow>
        matches (screen_name P F q rows) =
          rank_matches [m \<leftarrow> map score_match (concat (map (match_against_entry F (P q)) rows)).
                         risk_score m \<ge> 60])"
  by (auto simp: screen_name_def Let_def set_rank_matches LOW_RISK_THRESHOLD_def MIN_NAME_LENGTH_def
      rank_matches_def sorted_reverse_def)

theorem low_threshold_cut_witness:
  "(''John Smith'' \<noteq> [] \<and> length (strip ''John Smith'') \<ge> 3)
   \<and> scored john_smith_exact 100 ''HIGH''
        \<in> set (matches (screen_name plain_process_single (const_fuzz 65) ''John Smith''
                          john_smith_rows))
   \<and> risk_score (scored john_smith_exact 100 ''HIGH'') \<ge> 60
   \<and> jon_smith_fuzzy
        \<in> set (concat (map (match_against_entry (const_fuzz 65)
                               (plain_process_single ''John Smith'')) john_smith_rows))
   \<and> is_match jon_smith_fuzzy \<and> score jon_smith_fuzzy \<ge> 60
   \<and> risk_score (score_match jon_smith_fuzzy) < 60
   \<and> score_match jon_smith_fuzzy
        \<notin> set (matches (screen_name plain_process_single (const_fuzz 65) ''John Smith''
                          john_smith_rows))"
proof -
  note inst = low_threshold_cut [of plain_process_single "const_fuzz 65" "''John Smith''"
      john_smith_rows]
  have fz: "is_match jon_smith_fuzzy \<and> score jon_smith_fuzzy \<ge> 60"
    by (simp add: jon_smith_fuzzy_def)
  have rs: "risk_score (score_match jon_smith_fuzzy) = 91 / 2"
    using scored_two_rows by (simp add: scored_fields)
  from inst have "score_match jon_smith_fuzzy
        \<notin> set (matches (screen_name plain_process_single (const_fuzz 65) ''John Smith''
                          john_smith_rows))"
    using rs by fastforce
  moreover from inst have "risk_score (scored john_smith_exact 100 ''HIGH'') \<ge> 60"
    by (simp add: screen_two_rows)
  ultimately show ?thesis
    using john_smith_long_enough fz rs by (simp add: screen_two_rows found_two_rows)
qed


subsection \<open>The token matcher\<close>

lemma best_match_fst:
  "fst (best_match F q ts (b, t)) = fold max (map (levenshtein_ratio F q) ts) b"
proof (induction ts arbitrary: b t)
  case Nil
  show ?case by simp
next
  case (Cons x xs)
  show ?case
    by (simp add: Let_def Cons.IH max_def)
qed

lemma fold_max_Max:
  "xs \<noteq> [] \<Longrightarrow> fold max xs (b::real) = max b (Max (set xs))"
proof -
  assume "xs \<noteq> []"
  have "fold max xs b = Max (set (b # xs))"
    by (simp only: Max.set_eq_fold)
  also have "\<dots> = max b (Max (set xs))"
    using \<open>xs \<noteq> []\<close> by simp
  finally show ?thesis .
qed

lemma best_match_score:
  assumes "ts \<noteq> []"
  shows "fst (best_match F q ts (0, None)) = max 0 (best_edit_ratio F q ts)"
  using assms by (simp add: best_match_fst fold_max_Max best_edit_ratio_def)

lemma token_loop_acc:
  assumes "ts \<noteq> []"
  shows "token_loop F qs ts (mts, tot) =
     (mts @ map (\<lambda>q. \<lparr>mt_query = q, mt_target = snd (best_match F q ts (0, None)),
                        mt_score = best_edit_ratio F q ts\<rparr>)
              [q \<leftarrow> qs. best_edit_ratio F q ts \<ge> 60],
      tot + (\<Sum>q \<leftarrow> qs. if best_edit_ratio F q ts \<ge> 60 then best_edit_ratio F q ts else 0))"
proof (induction qs arbitrary: mts tot)
  case Nil
  show ?case by simp
next
  case (Cons q qs)
  obtain b t where bm: "best_match F q ts (0, None) = (b, t)"
    by (cases "best_match F q ts (0, None)") auto
  have b: "b = max 0 (best_edit_ratio F q ts)"
    using best_match_score [OF assms, of F q] bm by simp
  show ?case
  proof (cases "best_edit_ratio F q ts \<ge> 60")
    case True
    then have "b = best_edit_ratio F q ts" using b by simp
    with True show ?thesis
      by (simp add: bm Cons.IH LOW_RISK_THRESHOLD_def)
  next
    case False
    then have "\<not> b \<ge> 60" using b by simp
    with False show ?thesis
      by (simp add: bm Cons.IH LOW_RISK_THRESHOLD_def)
  qed
qed

text \<open>
  Claim C7. With an empty query-token list or an empty target-token list the token matcher
  returns score 0 and no match. Otherwise the score is the sum, over the query tokens whose
  best edit ratio against the target tokens is at least 60, of that best ratio, divided by
  the number of all query tokens; the match ratio is the number of those accepted query
  tokens divided by the number of all query tokens. In every case \<open>is_match\<close> holds exactly
  when the score is at least 60.
\<close>

theorem token_matcher_score:
  "(qs = [] \<or> ts = [] \<longrightarrow>
      score (TokenMatcher_match F qs ts) = 0 \<and> \<not> is_match (TokenMatcher_match F qs ts))
   \<and> (qs \<noteq> [] \<and> ts \<noteq> [] \<longrightarrow>
      score (TokenMatcher_match F qs ts) =
        (\<Sum>q \<leftarrow> qs. if best_edit_ratio F q ts \<ge> 60 then best_edit_ratio F q ts else 0)
          / real (length qs)
      \<and> details_match_ratio (details (TokenMatcher_match F qs ts)) =
          real (length [q \<leftarrow> qs. best_edit_ratio F q ts \<ge> 60]) / real (length qs))
   \<and> is_match (TokenMatcher_match F qs ts) = (score (TokenMatcher_match F qs ts) \<ge> 60)"
proof (cases "qs = [] \<or> ts = []")
  case True
  then show ?thesis
    by (auto simp: TokenMatcher_match_def)
next
  case False
  then have ts: "ts \<noteq> []" and qs: "qs \<noteq> []" by simp_all
  show ?thesis
    using False
    by (simp add: TokenMatcher_match_def token_loop_acc [OF ts] LOW_RISK_THRESHOLD_def Let_def)
qed

theorem token_matcher_score_witness:
  "[''john'', ''smith''] \<noteq> [] \<and> [''jon'', ''smith''] \<noteq> []
   \<and> score (TokenMatcher_match (const_fuzz 65) [''john'', ''smith''] [''jon'', ''smith'']) = 65
   \<and> details_match_ratio (details (TokenMatcher_match (const_fuzz 65) [''john'', ''smith''] [''jon'', ''smith''])) = 1
   \<and> is_match (TokenMatcher_match (const_fuzz 65) [''john'', ''smith''] [''jon'', ''smith''])
   \<and> score (TokenMatcher_match (const_fuzz 65) [] [''jon'', ''smith'']) = 0
   \<and> \<not> is_match (TokenMatcher_match (const_fuzz 65) [] [''jon'', ''smith''])"
  using token_matcher_score [of "[''john'', ''smith'']" "[''jon'', ''smith'']" "const_fuzz 65"]
    token_matcher_score [of "[]" "[''jon'', ''smith'']" "const_fuzz 65"]
  by (simp add: best_edit_ratio_def levenshtein_ratio_def const_fuzz_def)

subsection \<open>Exact matches short-circuit\<close>

lemma emit_fields:
  "match_type (emit r row c) = match_type r"
  "score (emit r row c) = score r"
  "is_match (emit r row c) = is_match r"
  by (simp_all add: emit_def matcher_result.defs)

lemma matcher_types:
  "match_type (ExactMatcher_match a b) = ''exact''"
  "match_type (FuzzyMatcher_match F a b) = ''fuzzy''"
  "match_type (TokenMatcher_match F qs ts) = ''token''"
  by (simp_all add: ExactMatcher_match_def FuzzyMatcher_match_def TokenMatcher_match_def Let_def
      split: prod.splits)

lemma exact_is_match:
  "is_match (ExactMatcher_match a b) = (strip (lower a) = strip (lower b))"
  "score (ExactMatcher_match a b) = (if strip (lower a) = strip (lower b) then 100 else 0)"
  by (simp_all add: ExactMatcher_match_def Let_def)

text \<open>
  Claim C8, as stated, fails for a candidate whose name is empty after preprocessing: the
  query \<^verbatim>\<open>Mr Dr\<close> and the row \<^verbatim>\<open>Dr.\<close> both have the empty normalized form, the two
  forms are equal, and no record is emitted.
\<close>

theorem exact_equal_names_counterexample:
  "normalized titles_only_profile = [] \<and> row_normalized titles_only_row = Some []
   \<and> strip (lower (normalized titles_only_profile)) = strip (lower (sanction_name_of titles_only_row))
   \<and> match_against_entry (const_fuzz 100) titles_only_profile titles_only_row = []"
  by (simp add: titles_only_profile_def titles_only_row_def sanction_name_of_def
      match_against_entry_def string_defs)

text \<open>
  Claim C8, amended. For a candidate whose sanction name (the \<^verbatim>\<open>normalized\<close> field, or
  \<^verbatim>\<open>name\<close> when that field is absent) is not empty and equals the normalized query up to
  case and surrounding white space, exactly one record is emitted: the exact record with
  score 100, the same for every similarity library (no fuzzy or token evaluation takes part
  in it). A candidate with an empty sanction name emits nothing. A candidate whose name
  differs from the query emits no exact record, at most one fuzzy and at most one token
  record.
\<close>

theorem exact_match_short_circuit:
  "(sanction_name_of row \<noteq> [] \<and>
    strip (lower (normalized qp)) = strip (lower (sanction_name_of row)) \<longrightarrow>
      (\<exists>m. match_against_entry F qp row = [m] \<and> match_type m = ''exact'' \<and> score m = 100 \<and>
           (\<forall>F'. match_against_entry F' qp row = [m])))
   \<and> (sanction_name_of row = [] \<longrightarrow> match_against_entry F qp row = [])
   \<and> (strip (lower (normalized qp)) \<noteq> strip (lower (sanction_name_of row)) \<longrightarrow>
        (\<forall>m \<in> set (match_against_entry F qp row). match_type m = ''fuzzy'' \<or> match_type m = ''token'')
        \<and> length [m \<leftarrow> match_against_entry F qp row. match_type m = ''fuzzy''] \<le> 1
        \<and> length [m \<leftarrow> match_against_entry F qp row. match_type m = ''token''] \<le> 1)"
proof (intro conjI impI)
  assume a: "sanction_name_of row \<noteq> [] \<and>
    strip (lower (normalized qp)) = strip (lower (sanction_name_of row))"
  let ?m = "emit (ExactMatcher_match (normalized qp) (sanction_name_of row)) row ''HIGH''"
  have "\<And>G. match_against_entry G qp row = [?m]"
    using a by (simp add: match_against_entry_def Let_def exact_is_match)
  moreover have "match_type ?m = ''exact''" "score ?m = 100"
    using a by (simp_all add: emit_fields matcher_types exact_is_match)
  ultimately show "\<exists>m. match_against_entry F qp row = [m] \<and> match_type m = ''exact'' \<and>
      score m = 100 \<and> (\<forall>F'. match_against_entry F' qp row = [m])"
    by blast
next
  assume "sanction_name_of row = []"
  then show "match_against_entry F qp row = []"
    by (simp add: match_against_entry_def)
next
  assume ne: "strip (lower (normalized qp)) \<noteq> strip (lower (sanction_name_of row))"
  show "\<forall>m \<in> set (match_against_entry F qp row). match_type m = ''fuzzy'' \<or> match_type m = ''token''"
    using ne by (auto simp: match_against_entry_def Let_def exact_is_match emit_fields matcher_types)
next
  assume ne: "strip (lower (normalized qp)) \<noteq> strip (lower (sanction_name_of row))"
  show "length [m \<leftarrow> match_against_entry F qp row. match_type m = ''fuzzy''] \<le> 1"
    using ne by (simp add: match_against_entry_def Let_def exact_is_match emit_fields matcher_types)
next
  assume ne: "strip (lower (normalized qp)) \<noteq> strip (lower (sanction_name_of row))"
  show "length [m \<leftarrow> match_against_entry F qp row. match_type m = ''token''] \<le> 1"
    using ne by (simp add: match_against_entry_def Let_def exact_is_match emit_fields matcher_types)
qed

theorem exact_match_short_circuit_witness:
  "(sanction_name_of (example_row ''John Smith'' ''OFAC'' ''SDN'') \<noteq> []
    \<and> strip (lower (normalized (plain_process_single ''John Smith'')))
        = strip (lower (sanction_name_of (example_row ''John Smith'' ''OFAC'' ''SDN'')))
    \<and> match_against_entry (const_fuzz 65) (plain_process_single ''John Smith'')
         (example_row ''John Smith'' ''OFAC'' ''SDN'') = [john_smith_exact]
    \<and> match_against_entry (const_fuzz 0) (plain_process_single ''John Smith'')
         (example_row ''John Smith'' ''OFAC'' ''SDN'') = [john_smith_exact])
   \<and> (sanction_name_of titles_only_row = []
      \<and> match_against_entry (const_fuzz 65) (plain_process_single ''John Smith'') titles_only_row = [])
   \<and> (strip (lower (normalized (plain_process_single ''John Smith'')))
        \<noteq> strip (lower (sanction_name_of (example_row ''Jon Smith'' ''EU'' ''Individual'')))
      \<and> match_against_entry (const_fuzz 65) (plain_process_single ''John Smith'')
           (example_row ''Jon Smith'' ''EU'' ''Individual'') = [jon_smith_fuzzy, jon_smith_token])"
proof -
  let ?qp = "plain_process_single ''John Smith''"
  let ?r1 = "example_row ''John Smith'' ''OFAC'' ''SDN''"
  let ?r2 = "example_row ''Jon Smith'' ''EU'' ''Individual''"
  have h1: "sanction_name_of ?r1 \<noteq> [] \<and>
            strip (lower (normalized ?qp)) = strip (lower (sanction_name_of ?r1))"
    by code_simp
  have e1: "match_against_entry (const_fuzz 65) ?qp ?r1 = [john_smith_exact]"
    by code_simp
  have h2: "sanction_name_of titles_only_row = []"
    by code_simp
  have h3: "strip (lower (normalized ?qp)) \<noteq> strip (lower (sanction_name_of ?r2))"
    by code_simp
  have e3: "match_against_entry (const_fuzz 65) ?qp ?r2 = [jon_smith_fuzzy, jon_smith_token]"
    by code_simp
  from exact_match_short_circuit [of ?r1 ?qp "const_fuzz 65"] h1 e1
  have "match_against_entry (const_fuzz 0) ?qp ?r1 = [john_smith_exact]"
    by auto
  moreover from exact_match_short_circuit [of titles_only_row ?qp "const_fuzz 65"] h2
  have "match_against_entry (const_fuzz 65) ?qp titles_only_row = []"
    by blast
  moreover from exact_match_short_circuit [of ?r2 ?qp "const_fuzz 65"] h3
  have "length [m \<leftarrow> match_against_entry (const_fuzz 65) ?qp ?r2. match_type m = ''fuzzy''] \<le> 1"
    by blast
  ultimately show ?thesis
    using h1 e1 h2 h3 e3 by simp
qed

subsection \<open>Empty screenings\<close>

lemmas filter_defs = apply_filters_def filter_common_words_def filter_short_names_def
  filter_title_only_matches_def filter_weak_partial_matches_def
  filter_geographic_false_positives_def

lemma apply_filters_Nil: "apply_filters [] q = []"
  by (simp add: filter_defs Let_def)

lemma create_match_summary_Nil:
  "create_match_summary [] =
     \<lparr>total_matches = 0, highest_risk = ''NONE'', highest_score = None,
      requires_review = False, can_auto_clear = True, risk_breakdown = None\<rparr>"
  by (simp add: create_match_summary_def)

lemma apply_rules_empty:
  assumes "matches sr = []" and "summary sr = create_match_summary []"
  shows "apply_rules E sr =
           Inr (\<lparr>action = ''AUTO_CLEAR'', reason = ''Low risk score, auto-cleared'',
                 dec_confidence = ''MEDIUM'', priority = ''LOW'',
                 timestamp = Some ''auto-generated'',
                 assigned_to = None, match_details = None, filter_applied = None,
                 requires_approval = None, sla_hours = None, workflow = None\<rparr>,
                ''low_risk_clear'')"
  using assms
  by (simp add: apply_rules_def create_match_summary_Nil high_risk_escalate_def
      summary_highest_score_def medium_risk_review_def low_risk_clear_def)

lemma validate_low_risk_clear:
  "validate_and_enhance E
     \<lparr>action = ''AUTO_CLEAR'', reason = ''Low risk score, auto-cleared'',
      dec_confidence = ''MEDIUM'', priority = ''LOW'',
      timestamp = Some ''auto-generated'',
      assigned_to = None, match_details = None, filter_applied = None,
      requires_approval = None, sla_hours = None, workflow = None\<rparr>
   = \<lparr>action = ''AUTO_CLEAR'', reason = ''Low risk score, auto-cleared'',
      dec_confidence = ''MEDIUM'', priority = ''LOW'',
      timestamp = Some ''auto-generated'',
      assigned_to = None, match_details = None, filter_applied = None,
      requires_approval = None, sla_hours = None,
      workflow = Some \<lparr>queue = ''auto_processed'', notification = False, escalation_path = None\<rparr>\<rparr>"
  by (simp add: validate_and_enhance_def validate_decision_def valid_actions_def
      valid_priorities_def get_workflow_routing_def)

lemma process_empty:
  assumes "matches sr = []" and "summary sr = create_match_summary []"
  shows "\<exists>res. process_screening_result E sr = Inr res \<and> matches res = [] \<and>
           summary res = create_match_summary [] \<and> action (decision res) = ''AUTO_CLEAR'' \<and>
           applied_rule res = ''low_risk_clear''"
proof -
  have m: "matches (sr\<lparr>matches := []\<rparr>) = []" and s: "summary (sr\<lparr>matches := []\<rparr>) = create_match_summary []"
    using assms by simp_all
  show ?thesis
    using assms
    by (simp add: process_screening_result_def apply_filters_Nil Let_def
        apply_rules_empty [OF m s] validate_low_risk_clear screening_result.defs)
qed

lemma screen_name_short:
  "q = [] \<or> length (strip q) < 3 \<Longrightarrow>
     matches (screen_name P F q rows) = [] \<and> summary (screen_name P F q rows) = create_match_summary []"
  by (auto simp: screen_name_def MIN_NAME_LENGTH_def)

lemma screen_name_no_rows:
  "matches (screen_name P F q []) = [] \<and> summary (screen_name P F q []) = create_match_summary []"
  by (simp add: screen_name_def Let_def rank_matches_Nil)

text \<open>
  Claim C6. A query whose trimmed length is below 3 (the empty query included), against any
  candidates, and any query against an empty candidate list, is screened without an error:
  the result has no matches, the summary has total 0, highest risk \<open>NONE\<close> and
  \<open>can_auto_clear\<close>, and the final decision is \<open>AUTO_CLEAR\<close>.
\<close>

theorem empty_screening_auto_clear:
  assumes "length (strip q) < 3 \<or> rows = []"
  shows "\<exists>res. screen E P F q rows = Inr res \<and> matches res = [] \<and>
           total_matches (summary res) = 0 \<and> highest_risk (summary res) = ''NONE'' \<and>
           can_auto_clear (summary res) \<and> action (decision res) = ''AUTO_CLEAR''"
proof -
  have "matches (screen_name P F q rows) = [] \<and>
        summary (screen_name P F q rows) = create_match_summary []"
    using assms screen_name_short [of q P F rows] screen_name_no_rows [of P F q] by blast
  then obtain res where "screen E P F q rows = Inr res" "matches res = []"
    "summary res = create_match_summary []" "action (decision res) = ''AUTO_CLEAR''"
    unfolding screen_def using process_empty [of "screen_name P F q rows" E] by blast
  then show ?thesis
    by (auto simp: create_match_summary_Nil)
qed

theorem empty_screening_auto_clear_witness:
  "(length (strip '' Al '') < 3
    \<and> matches (projr (screen example_env plain_process_single (const_fuzz 100) '' Al '' john_smith_rows)) = []
    \<and> action (decision (projr (screen example_env plain_process_single (const_fuzz 100) '' Al '' john_smith_rows))) = ''AUTO_CLEAR'')
   \<and> (action (decision (projr (screen example_env plain_process_single (const_fuzz 100) ''John Smith'' []))) = ''AUTO_CLEAR''
      \<and> highest_risk (summary (projr (screen example_env plain_process_single (const_fuzz 100) ''John Smith'' []))) = ''NONE'')"
proof -
  have short: "length (strip '' Al '') < 3" by (simp add: string_defs)
  from empty_screening_auto_clear [of "'' Al ''" john_smith_rows example_env plain_process_single "const_fuzz 100"] short
  obtain r1 where "screen example_env plain_process_single (const_fuzz 100) '' Al '' john_smith_rows = Inr r1"
     "matches r1 = []" "action (decision r1) = ''AUTO_CLEAR''" by blast
  moreover
  from empty_screening_auto_clear [of "''John Smith''" "[]" example_env plain_process_single "const_fuzz 100"]
  obtain r2 where "screen example_env plain_process_single (const_fuzz 100) ''John Smith'' [] = Inr r2"
     "highest_risk (summary r2) = ''NONE''" "action (decision r2) = ''AUTO_CLEAR''" by blast
  ultimately show ?thesis using short by simp
qed

subsection \<open>Short queries with a high-risk match\<close>

lemmas rule_defs = apply_rules_def high_risk_escalate_def medium_risk_review_def
  low_risk_clear_def common_name_filter_def common_names_def default_decision_def
  summary_highest_score_def max_by_def

lemmas decision_defs = validate_and_enhance_def validate_decision_def valid_actions_def
  valid_priorities_def get_workflow_routing_def create_decision_def
  decision_requires_approval_def approval_required_def get_sla_hours_def sla_matrix_def
  dict_get_def

lemmas engine_defs = process_screening_result_def generate_compliance_metadata_def
  screening_result.defs

lemma kim_long_enough: "''Kim'' \<noteq> [] \<and> \<not> length (strip ''Kim'') < 3 \<and> length (strip ''Kim'') \<le> 3"
  by (simp add: string_defs)

lemma found_kim:
  "match_against_entry F (plain_process_single ''Kim'') (example_row ''Kim'' src lt) = [kim_exact src lt]"
  by (simp add: kim_exact_def matcher_defs string_defs Let_def)

lemma scored_kim_eu:
  "score_match (kim_exact ''EU'' lt) = scored (kim_exact ''EU'' lt) 84 ''MEDIUM''"
  by (simp add: kim_exact_def scored_def scorer_defs threshold_defs)

lemma scored_kim_ofac:
  "score_match (kim_exact ''OFAC'' lt) = scored (kim_exact ''OFAC'' lt) 100 ''HIGH''"
  by (simp add: kim_exact_def scored_def scorer_defs threshold_defs)

lemma screen_name_kim_eu:
  "screen_name plain_process_single F ''Kim'' [example_row ''Kim'' ''EU'' lt] =
     \<lparr>query = ''Kim'', processed_query = Some (plain_process_single ''Kim''),
      matches = [scored (kim_exact ''EU'' lt) 84 ''MEDIUM''],
      summary = \<lparr>total_matches = 1, highest_risk = ''MEDIUM'', highest_score = Some 84,
                 requires_review = False, can_auto_clear = False,
                 risk_breakdown = Some (0, 1, 0)\<rparr>\<rparr>"
  using kim_long_enough
  by (simp add: screen_name_def Let_def found_kim scored_kim_eu scored_fields rank_matches_single
      summary_defs threshold_defs)

lemma screen_name_kim_ofac:
  "screen_name plain_process_single F ''Kim'' [example_row ''Kim'' ''OFAC'' lt] =
     \<lparr>query = ''Kim'', processed_query = Some (plain_process_single ''Kim''),
      matches = [scored (kim_exact ''OFAC'' lt) 100 ''HIGH''],
      summary = \<lparr>total_matches = 1, highest_risk = ''HIGH'', highest_score = Some 100,
                 requires_review = True, can_auto_clear = False,
                 risk_breakdown = Some (1, 0, 0)\<rparr>\<rparr>"
  using kim_long_enough
  by (simp add: screen_name_def Let_def found_kim scored_kim_ofac scored_fields rank_matches_single
      summary_defs threshold_defs)

lemma apply_filters_short_query: "length (strip q) \<le> 3 \<Longrightarrow> apply_filters ms q = []"
  by (simp add: apply_filters_def filter_short_names_def filter_title_only_matches_def
      filter_weak_partial_matches_def filter_geographic_false_positives_def Let_def)

lemma escalate_on_empty_raises:
  assumes "apply_filters (matches r) (query r) = []"
    and "summary_highest_score (summary r) \<ge> 85"
  shows "process_screening_result E r = Inl ValueError"
  using assms
  by (simp add: process_screening_result_def Let_def apply_rules_def high_risk_escalate_def
      max_by_def)

text \<open>
  Claim C2 fails on the code. Query \<^verbatim>\<open>Kim\<close> against one OFAC row named \<^verbatim>\<open>Kim\<close>: the
  exact match has risk score 100, the short-name filter empties the match list because the
  query has three characters, the summary still reports 100, and \<^verbatim>\<open>_high_risk_escalate\<close>
  takes \<^verbatim>\<open>max\<close> of the empty list: the pipeline raises \<^verbatim>\<open>ValueError\<close> instead of
  returning a decision.
\<close>

theorem short_query_high_risk_raises:
  "screen E plain_process_single F ''Kim'' [example_row ''Kim'' ''OFAC'' ''SDN''] = Inl ValueError"
  using kim_long_enough
  by (simp add: screen_def screen_name_kim_ofac process_screening_result_def
      apply_filters_short_query Let_def rule_defs)

lemma screen_kim_eu:
  "screen E plain_process_single F ''Kim'' [example_row ''Kim'' ''EU'' lt] =
     Inr \<lparr>query = ''Kim'', processed_query = Some (plain_process_single ''Kim''),
          matches = [],
          summary = \<lparr>total_matches = 1, highest_risk = ''MEDIUM'', highest_score = Some 84,
                 requires_review = False, can_auto_clear = False,
                 risk_breakdown = Some (0, 1, 0)\<rparr>,
          filtered_count = 1,
          decision = default_decision\<lparr>workflow := Some \<lparr>queue = ''auto_processed'', notification = False, escalation_path = None\<rparr>\<rparr>,
          applied_rule = ''default'',
          compliance = \<lparr>screening_id = new_screening_id E, total_matches_found = 1,
             matches_after_filtering = 0, highest_risk_score = 0,
             decision_action = ''AUTO_CLEAR'', decision_confidence = ''HIGH'',
             comp_requires_approval = False, comp_sla_hours = 24,
             comp_applied_rule = ''default'', processing_time_ms = 0,
             risk_assessment = None\<rparr>\<rparr>"
  using kim_long_enough
  by (simp add: screen_def screen_name_kim_eu process_screening_result_def
      apply_filters_short_query Let_def rule_defs decision_defs generate_compliance_metadata_def
      screening_result.defs)


subsection \<open>The summary read by the decision rules\<close>

lemma screen_name_query: "query (screen_name P F q rows) = q"
  by (simp add: screen_name_def Let_def)

lemma process_screening_result_Inr:
  assumes "process_screening_result E r = Inr res"
  shows "matches res = apply_filters (matches r) (query r)
         \<and> summary res = summary r
         \<and> query res = query r
         \<and> filtered_count res = length (matches r) - length (matches res)
         \<and> (\<exists>d. apply_rules E (r\<lparr>matches := apply_filters (matches r) (query r)\<rparr>)
                   = Inr (d, applied_rule res)
                \<and> decision res = validate_and_enhance E d)"
  using assms
  by (auto simp: process_screening_result_def Let_def screening_result.defs
      split: sum.splits prod.splits)

text \<open>
  Claim C1, amended. The summary that the decision rules read is the one the matching
  engine computed over its ranked matches (those with risk score at least 60), before the
  false-positive filters run. The flagging engine replaces the match list by the filtered
  one and records the number of removed matches; it leaves the summary as it is. The rules
  are applied to the filtered matches together with that summary, so a match removed by a
  filter still counts in its total, highest risk level and highest score.
\<close>

theorem summary_computed_before_filtering:
  assumes "screen E P F q rows = Inr res"
  shows "matches res = apply_filters (matches (screen_name P F q rows)) q
         \<and> summary res = create_match_summary (matches (screen_name P F q rows))
         \<and> filtered_count res = length (matches (screen_name P F q rows)) - length (matches res)
         \<and> (\<exists>d. apply_rules E ((screen_name P F q rows)\<lparr>matches := matches res\<rparr>)
                   = Inr (d, applied_rule res)
                \<and> decision res = validate_and_enhance E d)"
proof -
  have s: "summary (screen_name P F q rows) = create_match_summary (matches (screen_name P F q rows))"
    by (simp add: screen_name_def Let_def)
  from process_screening_result_Inr [OF assms [unfolded screen_def]]
  show ?thesis
    by (simp add: screen_name_query s)
qed

lemma screen_kim_no_rows:
  "screen E plain_process_single F ''Kim'' [] =
     Inr \<lparr>query = ''Kim'', processed_query = Some (plain_process_single ''Kim''),
          matches = [],
          summary = create_match_summary [],
          filtered_count = 0,
          decision = \<lparr>action = ''AUTO_CLEAR'', reason = ''Low risk score, auto-cleared'',
               dec_confidence = ''MEDIUM'', priority = ''LOW'',
               timestamp = Some ''auto-generated'',
               assigned_to = None, match_details = None, filter_applied = None,
               requires_approval = None, sla_hours = None,
               workflow = Some \<lparr>queue = ''auto_processed'', notification = False,
                                 escalation_path = None\<rparr>\<rparr>,
          applied_rule = ''low_risk_clear'',
          compliance = \<lparr>screening_id = new_screening_id E, total_matches_found = 0,
             matches_after_filtering = 0, highest_risk_score = 0,
             decision_action = ''AUTO_CLEAR'', decision_confidence = ''MEDIUM'',
             comp_requires_approval = False, comp_sla_hours = 24,
             comp_applied_rule = ''low_risk_clear'', processing_time_ms = 0,
             risk_assessment = None\<rparr>\<rparr>"
  by code_simp

text \<open>
  Claim C1, as stated, fails. Query \<^verbatim>\<open>Kim\<close> against one EU row named \<^verbatim>\<open>Kim\<close>: the
  exact match (risk score 84) is removed by the short-name filter, the summary read by the
  rules still has total 1, level \<open>MEDIUM\<close> and highest score 84, which is not the summary
  of the surviving (empty) list, and the default rule decides. The same query against no
  candidates has the same surviving list and is decided by the low-risk rule instead.
\<close>

theorem summary_after_filtering_counterexample:
  "screen example_env plain_process_single (const_fuzz 0) ''Kim'' kim_eu_rows
     = Inr (projr (screen example_env plain_process_single (const_fuzz 0) ''Kim'' kim_eu_rows))
   \<and> matches (projr (screen example_env plain_process_single (const_fuzz 0) ''Kim'' kim_eu_rows)) = []
   \<and> total_matches (summary (projr (screen example_env plain_process_single (const_fuzz 0) ''Kim'' kim_eu_rows))) = 1
   \<and> highest_risk (summary (projr (screen example_env plain_process_single (const_fuzz 0) ''Kim'' kim_eu_rows))) = ''MEDIUM''
   \<and> highest_score (summary (projr (screen example_env plain_process_single (const_fuzz 0) ''Kim'' kim_eu_rows))) = Some 84
   \<and> summary (projr (screen example_env plain_process_single (const_fuzz 0) ''Kim'' kim_eu_rows))
       \<noteq> create_match_summary
            (matches (projr (screen example_env plain_process_single (const_fuzz 0) ''Kim'' kim_eu_rows)))
   \<and> applied_rule (projr (screen example_env plain_process_single (const_fuzz 0) ''Kim'' kim_eu_rows)) = ''default''
   \<and> matches (projr (screen example_env plain_process_single (const_fuzz 0) ''Kim'' [])) = []
   \<and> applied_rule (projr (screen example_env plain_process_single (const_fuzz 0) ''Kim'' [])) = ''low_risk_clear''
   \<and> decision (projr (screen example_env plain_process_single (const_fuzz 0) ''Kim'' kim_eu_rows))
       \<noteq> decision (projr (screen example_env plain_process_single (const_fuzz 0) ''Kim'' []))"
  unfolding kim_eu_rows_def screen_kim_eu screen_kim_no_rows
  by (simp add: create_match_summary_Nil default_decision_def)

theorem summary_computed_before_filtering_witness:
  "screen example_env plain_process_single (const_fuzz 0) ''Kim'' kim_eu_rows
     = Inr (projr (screen example_env plain_process_single (const_fuzz 0) ''Kim'' kim_eu_rows))
   \<and> summary (projr (screen example_env plain_process_single (const_fuzz 0) ''Kim'' kim_eu_rows))
       = create_match_summary
           (matches (screen_name plain_process_single (const_fuzz 0) ''Kim'' kim_eu_rows))
   \<and> length (matches (screen_name plain_process_single (const_fuzz 0) ''Kim'' kim_eu_rows)) = 1
   \<and> matches (projr (screen example_env plain_process_single (const_fuzz 0) ''Kim'' kim_eu_rows)) = []"
proof -
  have ev: "screen example_env plain_process_single (const_fuzz 0) ''Kim'' kim_eu_rows
     = Inr (projr (screen example_env plain_process_single (const_fuzz 0) ''Kim'' kim_eu_rows))"
    unfolding kim_eu_rows_def screen_kim_eu by simp
  have len: "length (matches (screen_name plain_process_single (const_fuzz 0) ''Kim'' kim_eu_rows)) = 1"
    unfolding kim_eu_rows_def screen_name_kim_eu by simp
  have emp: "matches (projr (screen example_env plain_process_single (const_fuzz 0) ''Kim'' kim_eu_rows)) = []"
    unfolding kim_eu_rows_def screen_kim_eu by simp
  from summary_computed_before_filtering [OF ev] ev len emp
  show ?thesis by blast
qed


subsection \<open>The common-name rule and validation\<close>

lemma screen_john_smith_local:
  "screen E plain_process_single F ''John Smith'' john_smith_local_rows =
     Inr \<lparr>query = ''John Smith'', processed_query = Some (plain_process_single ''John Smith''),
          matches = [scored john_smith_local 60 ''LOW''],
          summary = \<lparr>total_matches = 1, highest_risk = ''LOW'', highest_score = Some 60,
                 requires_review = False, can_auto_clear = False,
                 risk_breakdown = Some (0, 0, 1)\<rparr>,
          filtered_count = 0,
          decision = \<lparr>action = ''MANUAL_REVIEW'',
                      reason = ''Decision validation failed, routing for manual review'',
                      dec_confidence = ''MEDIUM'', priority = ''MEDIUM'',
                      timestamp = Some (now_isoformat E), assigned_to = None,
                      match_details = None, filter_applied = None,
                      requires_approval = Some False, sla_hours = Some 24, workflow = None\<rparr>,
          applied_rule = ''common_name_filter'',
          compliance = \<lparr>screening_id = new_screening_id E, total_matches_found = 1,
             matches_after_filtering = 1, highest_risk_score = 60,
             decision_action = ''MANUAL_REVIEW'', decision_confidence = ''MEDIUM'',
             comp_requires_approval = False, comp_sla_hours = 24,
             comp_applied_rule = ''common_name_filter'', processing_time_ms = 0,
             risk_assessment = Some (''LOCAL'', ''exact'', ''HIGH'')\<rparr>\<rparr>"
  by code_simp

lemma common_name_decision_invalid:
  "common_name_filter ms sm res = Some d \<Longrightarrow>
     action d = ''AUTO_CLEAR'' \<and> filter_applied d = Some ''common_name'' \<and>
     \<not> validate_decision d \<and>
     action (validate_and_enhance E d) = ''MANUAL_REVIEW'' \<and>
     filter_applied (validate_and_enhance E d) = None"
  by (auto simp: common_name_filter_def Let_def validate_decision_def validate_and_enhance_def
      create_decision_def split: if_splits)

text \<open>
  Claim C3 fails on the code. Query \<^verbatim>\<open>John Smith\<close> against one row of that name from a
  source outside the priority table: the exact match has risk score 60, no filter removes
  it, the first four rules do not fire, and the common-name rule returns its
  \<open>AUTO_CLEAR\<close> decision. That decision has no \<^verbatim>\<open>timestamp\<close> key, validation rejects
  it, and the caller receives the fallback \<open>MANUAL_REVIEW\<close> decision without
  \<^verbatim>\<open>filter_applied\<close>. (\<open>common_name_decision_invalid\<close> above: this happens whenever the
  common-name rule fires.)
\<close>

theorem common_name_decision_replaced:
  "strip (lower ''John Smith'') \<in> set common_names
   \<and> screen E plain_process_single F ''John Smith'' john_smith_local_rows
       = Inr (projr (screen E plain_process_single F ''John Smith'' john_smith_local_rows))
   \<and> highest_score (summary (projr (screen E plain_process_single F ''John Smith''
                                        john_smith_local_rows))) = Some 60
   \<and> applied_rule (projr (screen E plain_process_single F ''John Smith''
                             john_smith_local_rows)) = ''common_name_filter''
   \<and> action (decision (projr (screen E plain_process_single F ''John Smith''
                                 john_smith_local_rows))) = ''MANUAL_REVIEW''
   \<and> reason (decision (projr (screen E plain_process_single F ''John Smith''
                                 john_smith_local_rows)))
       = ''Decision validation failed, routing for manual review''
   \<and> filter_applied (decision (projr (screen E plain_process_single F ''John Smith''
                                         john_smith_local_rows))) = None"
proof -
  have "strip (lower ''John Smith'') \<in> set common_names"
    by code_simp
  then show ?thesis
    unfolding screen_john_smith_local by simp
qed


subsection \<open>Enrichment of the decision\<close>

lemma process_high_risk:
  "process_screening_result E high_risk_result =
     Inr \<lparr>query = ''Osama bin Laden'', processed_query = None,
          matches = matches high_risk_result,
          summary = summary high_risk_result,
          filtered_count = 0,
          decision = \<lparr>action = ''BLOCK'',
                      reason = ''Exact OFAC match: Osama bin Laden'',
                      dec_confidence = ''HIGH'', priority = ''CRITICAL'',
                      timestamp = Some ''auto-generated'', assigned_to = None,
                      match_details = Some (Some (hd (matches high_risk_result))),
                      filter_applied = None,
                      requires_approval = None, sla_hours = None,
                      workflow = Some \<lparr>queue = ''immediate_action'', notification = True,
                                        escalation_path = Some ''compliance_manager''\<rparr>\<rparr>,
          applied_rule = ''exact_ofac_block'',
          compliance = \<lparr>screening_id = new_screening_id E, total_matches_found = 1,
             matches_after_filtering = 1, highest_risk_score = 100,
             decision_action = ''BLOCK'', decision_confidence = ''HIGH'',
             comp_requires_approval = False, comp_sla_hours = 24,
             comp_applied_rule = ''exact_ofac_block'', processing_time_ms = 0,
             risk_assessment = Some (''OFAC'', ''exact'', ''HIGH'')\<rparr>\<rparr>"
  by code_simp

lemma rule_decisions_bare:
  "exact_ofac_block ms sm res = Some d \<Longrightarrow> requires_approval d = None \<and> sla_hours d = None"
  "high_risk_escalate E ms sm res = Inr (Some d) \<Longrightarrow> requires_approval d = None \<and> sla_hours d = None"
  "medium_risk_review ms sm res = Some d \<Longrightarrow> requires_approval d = None \<and> sla_hours d = None"
  "low_risk_clear ms sm res = Some d \<Longrightarrow> requires_approval d = None \<and> sla_hours d = None"
  "common_name_filter ms sm res = Some d \<Longrightarrow> requires_approval d = None \<and> sla_hours d = None"
proof -
  show "exact_ofac_block ms sm res = Some d \<Longrightarrow> requires_approval d = None \<and> sla_hours d = None"
    by (induction ms) (auto split: if_splits)
  show "high_risk_escalate E ms sm res = Inr (Some d) \<Longrightarrow> requires_approval d = None \<and> sla_hours d = None"
    by (auto simp: high_risk_escalate_def Let_def split: if_splits sum.splits)
  show "medium_risk_review ms sm res = Some d \<Longrightarrow> requires_approval d = None \<and> sla_hours d = None"
    by (auto simp: medium_risk_review_def Let_def split: if_splits)
  show "low_risk_clear ms sm res = Some d \<Longrightarrow> requires_approval d = None \<and> sla_hours d = None"
    by (auto simp: low_risk_clear_def split: if_splits)
  show "common_name_filter ms sm res = Some d \<Longrightarrow> requires_approval d = None \<and> sla_hours d = None"
    by (auto simp: common_name_filter_def Let_def split: if_splits)
qed

lemma apply_rules_bare:
  assumes "apply_rules E sr = Inr (d, rule)"
  shows "requires_approval d = None \<and> sla_hours d = None"
  using assms
  by (auto simp: apply_rules_def Let_def default_decision_def
      split: option.splits sum.splits dest: rule_decisions_bare)

lemma validate_and_enhance_cases:
  assumes "requires_approval d = None \<and> sla_hours d = None"
  shows "(validate_decision d \<and> requires_approval (validate_and_enhance E d) = None
            \<and> sla_hours (validate_and_enhance E d) = None
            \<and> workflow (validate_and_enhance E d) = Some (get_workflow_routing d))
         \<or> (\<not> validate_decision d \<and> action (validate_and_enhance E d) = ''MANUAL_REVIEW''
            \<and> requires_approval (validate_and_enhance E d) = Some False
            \<and> sla_hours (validate_and_enhance E d) = Some 24
            \<and> workflow (validate_and_enhance E d) = None)"
  using assms
  by (simp add: validate_and_enhance_def create_decision_def decision_requires_approval_def
      approval_required_def get_sla_hours_def sla_matrix_def dict_get_def)

lemma decision_never_fully_enriched:
  assumes "process_screening_result E r = Inr res"
  shows "(requires_approval (decision res) = None \<and> sla_hours (decision res) = None)
         \<or> workflow (decision res) = None"
proof -
  from process_screening_result_Inr [OF assms]
  obtain d where d: "apply_rules E (r\<lparr>matches := apply_filters (matches r) (query r)\<rparr>)
                       = Inr (d, applied_rule res)"
    and dec: "decision res = validate_and_enhance E d"
    by blast
  from validate_and_enhance_cases [OF apply_rules_bare [OF d], of E] dec
  show ?thesis by auto
qed

text \<open>
  Claim C4 fails on the code. On the high-risk screening result of the repository's own
  test the exact-OFAC rule returns \<open>BLOCK\<close> at priority \<open>CRITICAL\<close>; the final decision
  gets a workflow record but neither \<^verbatim>\<open>requires_approval\<close> nor \<^verbatim>\<open>sla_hours\<close>, and
  the compliance metadata fall back to \<open>False\<close> and 24, where the tables of
  \<^verbatim>\<open>DecisionMaker\<close> say \<open>True\<close> and 0. (\<open>decision_never_fully_enriched\<close> above: no
  returned decision carries all three; only the fallback decision built by
  \<^verbatim>\<open>create_decision\<close> has the first two, and it has no workflow.)
\<close>

theorem block_decision_not_enriched:
  "process_screening_result E high_risk_result
     = Inr (projr (process_screening_result E high_risk_result))
   \<and> action (decision (projr (process_screening_result E high_risk_result))) = ''BLOCK''
   \<and> priority (decision (projr (process_screening_result E high_risk_result))) = ''CRITICAL''
   \<and> requires_approval (decision (projr (process_screening_result E high_risk_result))) = None
   \<and> sla_hours (decision (projr (process_screening_result E high_risk_result))) = None
   \<and> comp_requires_approval (compliance (projr (process_screening_result E high_risk_result))) = False
   \<and> comp_sla_hours (compliance (projr (process_screening_result E high_risk_result))) = 24
   \<and> decision_requires_approval ''BLOCK'' = True
   \<and> get_sla_hours ''BLOCK'' ''CRITICAL'' = 0"
proof -
  have "decision_requires_approval ''BLOCK'' = True \<and> get_sla_hours ''BLOCK'' ''CRITICAL'' = 0"
    by code_simp
  then show ?thesis
    unfolding process_high_risk by simp
qed

end
